theory Spec2Isabelle
  imports Complex_Main "HOL-Library.Char_ord" "HOL-Library.List_Lexorder" "HOL-Library.Sublist"
begin

section \<open>Songs dashboard: the data pipeline of Python_project.py\<close>

text \<open>
  The script is a sequence of calls into a dataframe library. A dataframe is modelled as
  the list of its column names and the list of its rows, each row holding one cell per
  column. A cell is dynamically typed, as in the library: a string, an integer, a float,
  a timestamp (a calendar date at midnight), or one of the two missing values NaN and
  NaT. A string is the UTF-8 encoding of the Python string, so that equality and order
  are those of the code points. A float is carried as the real number it denotes; the
  operations that round (the mean) round explicitly to binary64 below. Integers are
  unbounded, and the row labels of the library's index are left out: a row is known by
  its position.
\<close>

subsection \<open>Cells, dataframes, exceptions\<close>

record date =
  year :: nat
  month :: nat
  day :: nat

datatype cell = Str string | IntV int | Flt real | Timestamp date | NaT | NaN

record dataframe =
  columns :: "string list"
  rows :: "cell list list"

text \<open>
  The repository pins no version of the dataframe library and ships none of its tables.
  Two facts of the library that the loader depends on are therefore parameters: the
  decimal digits of Unicode outside ASCII, given by the UTF-8 encoding of the character
  and its value from 0 to 9 (the regular expression class \<^verbatim>\<open>\d\<close> and \<^verbatim>\<open>int()\<close> accept
  them), and the resolution of timestamps, nanoseconds up to version 2 of the library,
  coarser and with a range beyond every four-digit year from version 3 on.
\<close>

record library =
  unicode_digit :: "string \<Rightarrow> nat option"
  wide_timestamps :: bool

datatype exn =
    FileNotFoundError string
  | KeyError string
  | TypeError string
  | ValueError string
  | OtherError string

text \<open>\<^verbatim>\<open>str(e)\<close>: a KeyError prints the repr of its key, the others their message.\<close>

fun exn_str :: "exn \<Rightarrow> string" where
  "exn_str (FileNotFoundError m) = m"
| "exn_str (KeyError k) = [CHR 0x27] @ k @ [CHR 0x27]"
| "exn_str (TypeError m) = m"
| "exn_str (ValueError m) = m"
| "exn_str (OtherError m) = m"

definition bind_exn :: "exn + 'a \<Rightarrow> ('a \<Rightarrow> exn + 'b) \<Rightarrow> exn + 'b" where
  "bind_exn m f = (case m of Inl e \<Rightarrow> Inl e | Inr x \<Rightarrow> f x)"

text \<open>An operation applied to every element of a column, stopping at the first exception.\<close>

fun map_exn :: "('a \<Rightarrow> exn + 'b) \<Rightarrow> 'a list \<Rightarrow> exn + 'b list" where
  "map_exn f [] = Inr []"
| "map_exn f (x # xs) =
     bind_exn (f x) (\<lambda>y. bind_exn (map_exn f xs) (\<lambda>ys. Inr (y # ys)))"

fun somes :: "'a option list \<Rightarrow> 'a list" where
  "somes [] = []"
| "somes (None # xs) = somes xs"
| "somes (Some x # xs) = x # somes xs"

text \<open>What the script shows to the user, and how a run of a section ends:
  it returns, it is halted by \<^verbatim>\<open>st.stop()\<close>, or an exception escapes.\<close>

datatype ui =
    St_error string
  | St_warning string
  | St_subheader string
  | St_dataframe dataframe

datatype 'a outcome = Returned 'a | Stopped | Raised exn

subsection \<open>Column access\<close>

fun col_index :: "string \<Rightarrow> string list \<Rightarrow> nat option" where
  "col_index name [] = None"
| "col_index name (c # cs) =
     (if c = name then Some 0
      else (case col_index name cs of None \<Rightarrow> None | Some i \<Rightarrow> Some (Suc i)))"

text \<open>\<^verbatim>\<open>df[name]\<close>: the column as a list of cells, KeyError when there is no such column.\<close>

definition get_column :: "string \<Rightarrow> dataframe \<Rightarrow> exn + cell list" where
  "get_column name df =
     (case col_index name (columns df) of
        None \<Rightarrow> Inl (KeyError name)
      | Some i \<Rightarrow> Inr (map (\<lambda>r. r ! i) (rows df)))"

text \<open>\<^verbatim>\<open>df[name] = values\<close>: overwrite the column when it exists, append it otherwise.\<close>

definition set_column :: "string \<Rightarrow> cell list \<Rightarrow> dataframe \<Rightarrow> dataframe" where
  "set_column name vals df =
     (case col_index name (columns df) of
        Some i \<Rightarrow> df\<lparr>rows := map (\<lambda>(r, v). r[i := v]) (zip (rows df) vals)\<rparr>
      | None \<Rightarrow> \<lparr>columns = columns df @ [name],
                 rows = map (\<lambda>(r, v). r @ [v]) (zip (rows df) vals)\<rparr>)"

text \<open>\<^verbatim>\<open>df[mask]\<close>: the rows whose mask entry is true, in their order, all columns kept.\<close>

definition boolean_index :: "bool list \<Rightarrow> dataframe \<Rightarrow> dataframe" where
  "boolean_index keep df = df\<lparr>rows := map fst (filter snd (zip (rows df) keep))\<rparr>"

definition isna :: "cell \<Rightarrow> bool" where
  "isna c = (c = NaN \<or> c = NaT)"

text \<open>\<^verbatim>\<open>df.dropna(subset=[name])\<close>.\<close>

definition dropna :: "string \<Rightarrow> dataframe \<Rightarrow> exn + dataframe" where
  "dropna name df =
     bind_exn (get_column name df) (\<lambda>col.
       Inr (boolean_index (map (\<lambda>c. \<not> isna c) col) df))"

text \<open>A well-formed dataframe has one cell per column in every row.\<close>

definition wf_df :: "dataframe \<Rightarrow> bool" where
  "wf_df df = list_all (\<lambda>r. length r = length (columns df)) (rows df)"

subsection \<open>Parsing the release date\<close>

text \<open>
  \<^verbatim>\<open>pd.to_datetime(col, format='%d-%m-%Y', errors='coerce')\<close>. The library compiles the
  format into the regular expression
  \<^verbatim>\<open>(3[0-1]|[1-2]\d|0[1-9]|[1-9]| [1-9])-(1[0-2]|0[1-9]|[1-9])-(\d\d\d\d)\<close>
  and requires it to match the whole string. No group can match a dash, so the three
  groups are the three dash-separated parts of the string. A bracketed class holds ASCII
  digits only; \<^verbatim>\<open>\d\<close> matches every decimal digit of Unicode. The parts are therefore cut
  into characters, each the one to four bytes of its encoding.
\<close>

definition digits :: "(char \<times> nat) list" where
  "digits = zip ''0123456789'' [0, 1, 2, 3, 4, 5, 6, 7, 8, 9]"

fun split_dash :: "string \<Rightarrow> string list" where
  "split_dash [] = [[]]"
| "split_dash (c # cs) =
     (if c = CHR ''-'' then [] # split_dash cs
      else (case split_dash cs of [] \<Rightarrow> [[c]] | f # fs \<Rightarrow> (c # f) # fs))"

text \<open>The number of bytes that follow the first byte of an encoded character.\<close>

definition continuation_bytes :: "char \<Rightarrow> nat" where
  "continuation_bytes b =
     (if b < CHR 0x80 then 0 else if b < CHR 0xE0 then 1 else if b < CHR 0xF0 then 2 else 3)"

fun utf8_chars :: "string \<Rightarrow> string list" where
  "utf8_chars [] = []"
| "utf8_chars (b # bs) =
     (b # take (continuation_bytes b) bs) # utf8_chars (drop (continuation_bytes b) bs)"

text \<open>A character of a bracketed class of digits, and a character of \<^verbatim>\<open>\d\<close>.\<close>

fun ascii_digit :: "string \<Rightarrow> nat option" where
  "ascii_digit [b] = map_of digits b"
| "ascii_digit _ = None"

fun any_digit :: "library \<Rightarrow> string \<Rightarrow> nat option" where
  "any_digit lib [b] = map_of digits b"
| "any_digit lib ch =
     (case unicode_digit lib ch of
        Some v \<Rightarrow> (if v \<le> 9 then Some v else None)
      | None \<Rightarrow> None)"

text \<open>The group of \<^verbatim>\<open>%d\<close>: \<^verbatim>\<open>3[0-1]|[1-2]\d|0[1-9]|[1-9]| [1-9]\<close>; its value is what
  \<^verbatim>\<open>int()\<close> makes of the matched text.\<close>

fun match_d :: "library \<Rightarrow> string list \<Rightarrow> nat option" where
  "match_d lib [a, b] =
     (if a = ''3''
      then (case ascii_digit b of
              Some y \<Rightarrow> (if y \<le> 1 then Some (30 + y) else None) | None \<Rightarrow> None)
      else if a = ''1'' \<or> a = ''2''
      then (case (ascii_digit a, any_digit lib b) of
              (Some x, Some y) \<Rightarrow> Some (10 * x + y) | _ \<Rightarrow> None)
      else if a = ''0'' \<or> a = '' ''
      then (case ascii_digit b of
              Some y \<Rightarrow> (if 1 \<le> y then Some y else None) | None \<Rightarrow> None)
      else None)"
| "match_d lib [a] =
     (case ascii_digit a of Some x \<Rightarrow> (if 1 \<le> x then Some x else None) | None \<Rightarrow> None)"
| "match_d lib _ = None"

text \<open>The group of \<^verbatim>\<open>%m\<close>: \<^verbatim>\<open>1[0-2]|0[1-9]|[1-9]\<close>.\<close>

fun match_m :: "string list \<Rightarrow> nat option" where
  "match_m [a, b] =
     (case (ascii_digit a, ascii_digit b) of
        (Some x, Some y) \<Rightarrow>
          (if (x = 1 \<and> y \<le> 2) \<or> (x = 0 \<and> 1 \<le> y) then Some (10 * x + y) else None)
      | _ \<Rightarrow> None)"
| "match_m [a] =
     (case ascii_digit a of Some x \<Rightarrow> (if 1 \<le> x then Some x else None) | None \<Rightarrow> None)"
| "match_m _ = None"

text \<open>The group of \<^verbatim>\<open>%Y\<close>: exactly four characters of \<^verbatim>\<open>\d\<close>.\<close>

fun match_Y :: "library \<Rightarrow> string list \<Rightarrow> nat option" where
  "match_Y lib [a, b, c, d] =
     (case (any_digit lib a, any_digit lib b, any_digit lib c, any_digit lib d) of
        (Some w, Some x, Some y, Some z) \<Rightarrow> Some (1000 * w + 100 * x + 10 * y + z)
      | _ \<Rightarrow> None)"
| "match_Y lib _ = None"

definition is_leap :: "nat \<Rightarrow> bool" where
  "is_leap y = (y mod 4 = 0 \<and> (y mod 100 \<noteq> 0 \<or> y mod 400 = 0))"

definition days_in_month :: "nat \<Rightarrow> nat \<Rightarrow> nat" where
  "days_in_month y m =
     (if m = 2 then (if is_leap y then 29 else 28)
      else if m = 4 \<or> m = 6 \<or> m = 9 \<or> m = 11 then 30 else 31)"

text \<open>
  A timestamp of nanosecond resolution is a 64-bit count of nanoseconds since 1970: the
  dates at midnight that it can hold run from 1677-09-22 to 2262-04-11. A timestamp of a
  coarser resolution holds every date of the calendar. With \<^verbatim>\<open>errors='coerce'\<close> a date
  that the timestamp cannot hold becomes NaT like any other failure.
\<close>

definition in_bounds :: "date \<Rightarrow> bool" where
  "in_bounds d =
     ((1677 < year d \<or> (year d = 1677 \<and> (9 < month d \<or> (month d = 9 \<and> 22 \<le> day d))))
      \<and> (year d < 2262 \<or> (year d = 2262 \<and> (month d < 4 \<or> (month d = 4 \<and> day d \<le> 11)))))"

definition representable :: "library \<Rightarrow> date \<Rightarrow> bool" where
  "representable lib d = (wide_timestamps lib \<or> in_bounds d)"

definition valid_date :: "date \<Rightarrow> bool" where
  "valid_date d =
     (1 \<le> year d \<and> year d \<le> 9999 \<and> 1 \<le> month d \<and> month d \<le> 12
      \<and> 1 \<le> day d \<and> day d \<le> days_in_month (year d) (month d))"

text \<open>The fields are checked by constructing a calendar date: the year is at least 1 and
  the day exists in its month.\<close>

definition strptime :: "library \<Rightarrow> string \<Rightarrow> date option" where
  "strptime lib s =
     (case split_dash s of
        [fd, fm, fy] \<Rightarrow>
          (case match_d lib (utf8_chars fd) of None \<Rightarrow> None | Some d \<Rightarrow>
          (case match_m (utf8_chars fm) of None \<Rightarrow> None | Some m \<Rightarrow>
          (case match_Y lib (utf8_chars fy) of None \<Rightarrow> None | Some y \<Rightarrow>
             (if 1 \<le> y \<and> d \<le> days_in_month y m
              then Some \<lparr>year = y, month = m, day = d\<rparr> else None))))
      | _ \<Rightarrow> None)"

text \<open>One cell of \<^verbatim>\<open>pd.to_datetime\<close>: a string is parsed; a number is printed first, and
  no printed number matches the format; a missing value stays missing. Reading a file
  gives no timestamp cell; one that is a date of the calendar would be kept as it is.\<close>

fun to_datetime_cell :: "library \<Rightarrow> cell \<Rightarrow> cell" where
  "to_datetime_cell lib (Str s) =
     (case strptime lib s of
        Some d \<Rightarrow> (if representable lib d then Timestamp d else NaT)
      | None \<Rightarrow> NaT)"
| "to_datetime_cell lib (Timestamp d) =
     (if valid_date d \<and> representable lib d then Timestamp d else NaT)"
| "to_datetime_cell lib _ = NaT"

definition to_datetime :: "library \<Rightarrow> cell list \<Rightarrow> cell list" where
  "to_datetime lib col = map (to_datetime_cell lib) col"

text \<open>
  \<^verbatim>\<open>.dt.year\<close> on a datetime column. A column without a missing timestamp gives an
  integer column of years. A column with a missing timestamp gives a float column: the
  years as floats, NaN where the timestamp is missing.
\<close>

fun dt_year_cell :: "bool \<Rightarrow> cell \<Rightarrow> cell" where
  "dt_year_cell as_float (Timestamp d) =
     (if as_float then Flt (real (year d)) else IntV (int (year d)))"
| "dt_year_cell as_float _ = NaN"

definition dt_year :: "cell list \<Rightarrow> cell list" where
  "dt_year col = map (dt_year_cell (NaT \<in> set col)) col"

text \<open>\<^verbatim>\<open>.astype(int)\<close> on a numeric column: a float is truncated towards zero, a
  missing value cannot be converted. Only numeric cells reach the call in the script; any
  other cell is reported as an error here.\<close>

fun astype_int_cell :: "cell \<Rightarrow> exn + cell" where
  "astype_int_cell (IntV i) = Inr (IntV i)"
| "astype_int_cell (Flt x) = Inr (IntV (if 0 \<le> x then \<lfloor>x\<rfloor> else \<lceil>x\<rceil>))"
| "astype_int_cell _ = Inl (ValueError ''Cannot convert non-finite values (NA or inf) to integer'')"

definition astype_int :: "cell list \<Rightarrow> exn + cell list" where
  "astype_int col = map_exn astype_int_cell col"

subsection \<open>load_data\<close>

definition file_path :: string where
  "file_path = ''songs_2000_2020_50k.csv''"

text \<open>
  The body of the \<^verbatim>\<open>try\<close> block. Its argument is what \<^verbatim>\<open>pd.read_csv(file_path)\<close> did:
  it raised, or it returned the table of the file.
\<close>

definition load_data_try :: "library \<Rightarrow> exn + dataframe \<Rightarrow> exn + dataframe" where
  "load_data_try lib read_csv =
     bind_exn read_csv (\<lambda>df.
     bind_exn (get_column ''Release Date'' df) (\<lambda>rd.
       let df1 = set_column ''release_datetime'' (to_datetime lib rd) df in
     bind_exn (get_column ''release_datetime'' df1) (\<lambda>dt.
       let df2 = set_column ''release_year'' (dt_year dt) df1 in
     bind_exn (dropna ''release_year'' df2) (\<lambda>df3.
     bind_exn (get_column ''release_year'' df3) (\<lambda>ry.
     bind_exn (astype_int ry) (\<lambda>ry'.
       Inr (set_column ''release_year'' ry' df3)))))))"

text \<open>The two handlers: each shows an error and halts the script.\<close>

definition load_data :: "library \<Rightarrow> exn + dataframe \<Rightarrow> ui list \<times> dataframe outcome" where
  "load_data lib read_csv =
     (case load_data_try lib read_csv of
        Inr df \<Rightarrow> ([], Returned df)
      | Inl (FileNotFoundError m) \<Rightarrow>
          ([St_error (''Error: The data file '' @ [CHR 0x27] @ file_path @ [CHR 0x27]
                      @ '' was not found.'')], Stopped)
      | Inl e \<Rightarrow>
          ([St_error (''An error occurred while loading the data: '' @ exn_str e)], Stopped))"

subsection \<open>Aggregations\<close>

text \<open>
  \<^verbatim>\<open>groupby\<close> drops the rows whose key is missing and sorts the distinct keys. The model
  covers integer keys for the years, and integer and string keys for the genres, where
  the library puts the numbers before the strings. A key cell of another type is outside
  the model and is reported as an error.
\<close>

fun int_key :: "cell \<Rightarrow> exn + int option" where
  "int_key (IntV i) = Inr (Some i)"
| "int_key NaN = Inr None"
| "int_key NaT = Inr None"
| "int_key _ = Inl (OtherError ''key type outside the model'')"

fun group_key :: "cell \<Rightarrow> exn + cell option" where
  "group_key (Str s) = Inr (Some (Str s))"
| "group_key (IntV i) = Inr (Some (IntV i))"
| "group_key NaN = Inr None"
| "group_key NaT = Inr None"
| "group_key _ = Inl (OtherError ''key type outside the model'')"

fun int_keys :: "cell list \<Rightarrow> int list" where
  "int_keys [] = []"
| "int_keys (IntV i # ks) = i # int_keys ks"
| "int_keys (k # ks) = int_keys ks"

fun str_keys :: "cell list \<Rightarrow> string list" where
  "str_keys [] = []"
| "str_keys (Str s # ks) = s # str_keys ks"
| "str_keys (k # ks) = str_keys ks"

definition sorted_keys :: "cell list \<Rightarrow> cell list" where
  "sorted_keys ks =
     map IntV (sort (remdups (int_keys ks))) @ map Str (sort (remdups (str_keys ks)))"

text \<open>\<^verbatim>\<open>df.groupby('release_year').size().reset_index(name='song_count')\<close>.\<close>

definition data_songs_per_year :: "dataframe \<Rightarrow> exn + dataframe" where
  "data_songs_per_year df =
     bind_exn (get_column ''release_year'' df) (\<lambda>col.
     bind_exn (map_exn int_key col) (\<lambda>ks.
       let present = somes ks; groups = sort (remdups present) in
       Inr \<lparr>columns = [''release_year'', ''song_count''],
            rows = map (\<lambda>k. [IntV k, IntV (int (length (filter (\<lambda>x. x = k) present)))])
                       groups\<rparr>))"

text \<open>
  Rounding to binary64, to nearest and ties to even: a number between \<open>2^e\<close> and
  \<open>2^(e+1)\<close> is rounded to a multiple of \<open>2^(e-52)\<close>, and below the normal range to
  a multiple of \<open>2^-1074\<close>. Overflow to infinity needs magnitudes above \<open>2^1023\<close> and
  is left out.
\<close>

function bit_length :: "int \<Rightarrow> nat" where
  "bit_length n = (if n \<le> 0 then 0 else Suc (bit_length (n div 2)))"
  by pat_completeness auto
termination
  by (relation "measure nat") auto

declare bit_length.simps [simp del]

definition f64_exponent :: "real \<Rightarrow> int" where
  "f64_exponent x =
     (if 1 \<le> \<bar>x\<bar> then int (bit_length \<lfloor>\<bar>x\<bar>\<rfloor>) - 1
      else - int (bit_length (\<lceil>1 / \<bar>x\<bar>\<rceil> - 1)))"

definition pow2 :: "int \<Rightarrow> real" where
  "pow2 k = (if 0 \<le> k then 2 ^ nat k else 1 / 2 ^ nat (- k))"

definition round_half_even :: "real \<Rightarrow> int" where
  "round_half_even x =
     (let n = \<lfloor>x\<rfloor>; r = x - real_of_int n
      in if r < 1 / 2 then n else if 1 / 2 < r then n + 1 else if even n then n else n + 1)"

definition f64 :: "real \<Rightarrow> real" where
  "f64 x =
     (if x = 0 then 0
      else let ulp = pow2 (max (f64_exponent x - 52) (- 1074))
           in real_of_int (round_half_even (x / ulp)) * ulp)"

text \<open>The numeric value of a cell for \<^verbatim>\<open>mean\<close>: an integer is converted to a float, a
  missing value is skipped, a cell that is not a number raises.\<close>

fun num_val :: "cell \<Rightarrow> exn + real option" where
  "num_val (IntV i) = Inr (Some (f64 (real_of_int i)))"
| "num_val (Flt x) = Inr (Some x)"
| "num_val NaN = Inr None"
| "num_val _ = Inl (TypeError ''Could not convert to numeric'')"

text \<open>
  The mean of a group: the library adds the values with compensated (Kahan) summation,
  every operation rounded, and divides the sum by the count. A count of rows is far
  below \<open>2^53\<close> and is a float as it stands.
\<close>

definition kahan_step :: "real \<times> real \<Rightarrow> real \<Rightarrow> real \<times> real" where
  "kahan_step acc val =
     (let sumx = fst acc; compensation = snd acc;
          y = f64 (val - compensation);
          t = f64 (sumx + y)
      in (t, f64 (f64 (t - sumx) - y)))"

definition mean :: "real list \<Rightarrow> cell" where
  "mean vs =
     (if vs = [] then NaN
      else Flt (f64 (fst (foldl kahan_step (0, 0) vs) / real (length vs))))"

text \<open>\<^verbatim>\<open>df.groupby('Genre')['Popularity'].mean().reset_index()\<close>.\<close>

definition avg_popularity_genre :: "dataframe \<Rightarrow> exn + dataframe" where
  "avg_popularity_genre df =
     bind_exn (get_column ''Genre'' df) (\<lambda>g.
     bind_exn (map_exn group_key g) (\<lambda>ks.
     bind_exn (get_column ''Popularity'' df) (\<lambda>p.
     bind_exn (map_exn num_val p) (\<lambda>vs.
       Inr \<lparr>columns = [''Genre'', ''Popularity''],
            rows = map (\<lambda>k. [k,
                     mean (somes (map snd (filter (\<lambda>kv. fst kv = Some k) (zip ks vs))))])
                       (sorted_keys (somes ks))\<rparr>))))"

text \<open>
  \<^verbatim>\<open>df.sample(n)\<close>, without replacement: the first \<open>n\<close> entries of a random permutation
  of the row positions, or ValueError when \<open>n\<close> exceeds the number of rows. The
  permutation that the unseeded generator draws is the argument \<open>perm\<close>.
\<close>

definition sample :: "nat list \<Rightarrow> nat \<Rightarrow> dataframe \<Rightarrow> exn + dataframe" where
  "sample perm n df =
     (if length (rows df) < n
      then Inl (ValueError
             (''Cannot take a larger sample than population when '' @ [CHR 0x27]
              @ ''replace=False'' @ [CHR 0x27]))
      else Inr (df\<lparr>rows := map (\<lambda>i. rows df ! i) (take n perm)\<rparr>))"

definition df_sample :: "nat list \<Rightarrow> dataframe \<Rightarrow> exn + dataframe" where
  "df_sample perm df = sample perm 5000 df"

subsection \<open>The filter of the song explorer\<close>

fun isin_cell :: "string list \<Rightarrow> cell \<Rightarrow> bool" where
  "isin_cell vs (Str s) = (s \<in> set vs)"
| "isin_cell vs _ = False"

definition isin :: "string list \<Rightarrow> cell list \<Rightarrow> bool list" where
  "isin vs col = map (isin_cell vs) col"

text \<open>A column compared with an integer: NaN compares false, a cell that is not a number
  raises.\<close>

fun ge_cell :: "int \<Rightarrow> cell \<Rightarrow> exn + bool" where
  "ge_cell a (IntV i) = Inr (a \<le> i)"
| "ge_cell a (Flt x) = Inr (real_of_int a \<le> x)"
| "ge_cell a NaN = Inr False"
| "ge_cell a _ = Inl (TypeError ''invalid comparison'')"

fun le_cell :: "int \<Rightarrow> cell \<Rightarrow> exn + bool" where
  "le_cell a (IntV i) = Inr (i \<le> a)"
| "le_cell a (Flt x) = Inr (x \<le> real_of_int a)"
| "le_cell a NaN = Inr False"
| "le_cell a _ = Inl (TypeError ''invalid comparison'')"

definition and_series :: "bool list \<Rightarrow> bool list \<Rightarrow> bool list" where
  "and_series xs ys = map (\<lambda>(x, y). x \<and> y) (zip xs ys)"

definition filtered_df ::
  "dataframe \<Rightarrow> string list \<Rightarrow> int \<times> int \<Rightarrow> int \<times> int \<Rightarrow> exn + dataframe" where
  "filtered_df df selected_genres selected_year_range selected_pop_range =
     bind_exn (get_column ''Genre'' df) (\<lambda>g.
       let m1 = isin selected_genres g in
     bind_exn (get_column ''release_year'' df) (\<lambda>y1.
     bind_exn (map_exn (ge_cell (fst selected_year_range)) y1) (\<lambda>m2.
     bind_exn (get_column ''release_year'' df) (\<lambda>y2.
     bind_exn (map_exn (le_cell (snd selected_year_range)) y2) (\<lambda>m3.
     bind_exn (get_column ''Popularity'' df) (\<lambda>p1.
     bind_exn (map_exn (ge_cell (fst selected_pop_range)) p1) (\<lambda>m4.
     bind_exn (get_column ''Popularity'' df) (\<lambda>p2.
     bind_exn (map_exn (le_cell (snd selected_pop_range)) p2) (\<lambda>m5.
       Inr (boolean_index
              (and_series (and_series (and_series (and_series m1 m2) m3) m4) m5)
              df))))))))))"

text \<open>\<^verbatim>\<open>df[names]\<close>: the named columns in the given order, KeyError for a missing one
  (the model reports the first missing name).\<close>

definition select_columns :: "string list \<Rightarrow> dataframe \<Rightarrow> exn + dataframe" where
  "select_columns names df =
     bind_exn (map_exn (\<lambda>c. case col_index c (columns df) of
                              None \<Rightarrow> Inl (KeyError c) | Some i \<Rightarrow> Inr i) names) (\<lambda>ixs.
       Inr \<lparr>columns = names, rows = map (\<lambda>r. map (\<lambda>i. r ! i) ixs) (rows df)\<rparr>)"

definition display_cols :: "string list" where
  "display_cols = [''Title'', ''Artist'', ''Genre'', ''release_year'', ''Popularity'', ''Duration'']"

text \<open>\<^verbatim>\<open>len(filtered_df)\<close> formatted in the f-string: the decimal digits of the number.\<close>

definition digit_char :: "nat \<Rightarrow> char" where
  "digit_char n = ''0123456789'' ! n"

fun string_of_nat :: "nat \<Rightarrow> string" where
  "string_of_nat n =
     (if 10 \<le> n then string_of_nat (n div 10) @ [digit_char (n mod 10)]
      else [digit_char n])"

declare string_of_nat.simps [simp del]

text \<open>
  The variables of the script that the filter section reads and writes: the loaded
  dataset \<^verbatim>\<open>df\<close> and the view \<^verbatim>\<open>filtered_df\<close>, unbound before the section runs.
\<close>

record script_vars =
  var_df :: dataframe
  var_filtered_df :: "dataframe option"

text \<open>
  The sections "Filter Logic" and "Display Results" of the song explorer page, from the
  emptiness check of the selected genres to the display of the result table (the closing
  title that follows it is left out). The widget values are its arguments. The result is
  what was shown, the variables afterwards, and how the run ended.
\<close>

definition song_explorer ::
  "script_vars \<Rightarrow> string list \<Rightarrow> int \<times> int \<Rightarrow> int \<times> int
     \<Rightarrow> ui list \<times> script_vars \<times> unit outcome" where
  "song_explorer vars selected_genres selected_year_range selected_pop_range =
     (if selected_genres = []
      then ([St_warning ''Please select at least one genre.''], vars, Stopped)
      else
        (case filtered_df (var_df vars) selected_genres selected_year_range selected_pop_range of
           Inl e \<Rightarrow> ([], vars, Raised e)
         | Inr f \<Rightarrow>
             (let vars' = vars\<lparr>var_filtered_df := Some f\<rparr>;
                  sub = St_subheader (''Found '' @ string_of_nat (length (rows f))
                                      @ '' songs matching your criteria:'')
              in (case select_columns display_cols f of
                    Inl e \<Rightarrow> ([sub], vars', Raised e)
                  | Inr v \<Rightarrow> ([sub, St_dataframe v], vars', Returned ())))))"

subsection \<open>The vocabulary of the specification\<close>

text \<open>
  The specification speaks of records and their attributes. The value of a row in a named
  column, the typing of a column, and the retention predicate of the filter contract are
  written here after the specification's words, to be compared with the code above.
\<close>

definition has_column :: "string \<Rightarrow> dataframe \<Rightarrow> bool" where
  "has_column name df = (col_index name (columns df) \<noteq> None)"

definition row_attr :: "dataframe \<Rightarrow> string \<Rightarrow> cell list \<Rightarrow> cell" where
  "row_attr df name r = (case col_index name (columns df) of Some i \<Rightarrow> r ! i | None \<Rightarrow> NaN)"

fun is_int_cell :: "cell \<Rightarrow> bool" where
  "is_int_cell (IntV i) = True"
| "is_int_cell _ = False"

fun is_str_cell :: "cell \<Rightarrow> bool" where
  "is_str_cell (Str s) = True"
| "is_str_cell _ = False"

definition int_column :: "string \<Rightarrow> dataframe \<Rightarrow> bool" where
  "int_column name df =
     (case get_column name df of Inr col \<Rightarrow> list_all is_int_cell col | Inl e \<Rightarrow> False)"

definition str_column :: "string \<Rightarrow> dataframe \<Rightarrow> bool" where
  "str_column name df =
     (case get_column name df of Inr col \<Rightarrow> list_all is_str_cell col | Inl e \<Rightarrow> False)"

text \<open>Row retained iff: genre in genres, and the release year and the popularity lie in
  their closed ranges.\<close>

definition spec_retained ::
  "dataframe \<Rightarrow> string list \<Rightarrow> int \<times> int \<Rightarrow> int \<times> int \<Rightarrow> cell list \<Rightarrow> bool" where
  "spec_retained df genres yearRange popularityRange r =
     ((case row_attr df ''Genre'' r of Str g \<Rightarrow> g \<in> set genres | _ \<Rightarrow> False)
      \<and> (case row_attr df ''release_year'' r of
            IntV y \<Rightarrow> fst yearRange \<le> y \<and> y \<le> snd yearRange | _ \<Rightarrow> False)
      \<and> (case row_attr df ''Popularity'' r of
            IntV p \<Rightarrow> fst popularityRange \<le> p \<and> p \<le> snd popularityRange | _ \<Rightarrow> False))"




text \<open>The number of records of a year, and the popularities observed for a genre.\<close>

definition count_year :: "dataframe \<Rightarrow> int \<Rightarrow> nat" where
  "count_year df y = length (filter (\<lambda>r. row_attr df ''release_year'' r = IntV y) (rows df))"

fun real_of_cell :: "cell \<Rightarrow> real" where
  "real_of_cell (IntV i) = real_of_int i"
| "real_of_cell (Flt x) = x"
| "real_of_cell _ = 0"

fun int_of_cell :: "cell \<Rightarrow> int" where
  "int_of_cell (IntV i) = i"
| "int_of_cell _ = 0"

text \<open>The sum of the magnitudes of the popularities of a dataset: below \<open>2^53\<close> every
  sum of popularities is a float without rounding.\<close>

definition popularity_magnitude :: "dataframe \<Rightarrow> int" where
  "popularity_magnitude df =
     sum_list (map (\<lambda>r. \<bar>int_of_cell (row_attr df ''Popularity'' r)\<bar>) (rows df))"

definition popularity_of_genre :: "dataframe \<Rightarrow> string \<Rightarrow> real list" where
  "popularity_of_genre df g =
     map (\<lambda>r. real_of_cell (row_attr df ''Popularity'' r))
         (filter (\<lambda>r. row_attr df ''Genre'' r = Str g) (rows df))"

text \<open>The two-row example of the specification, as the table of a file, and as loaded.\<close>

definition example_csv :: dataframe where
  "example_csv =
     \<lparr>columns = [''Title'', ''Genre'', ''Release Date'', ''Popularity'', ''Duration''],
      rows = [[Str ''A'', Str ''Pop'', Str ''01-06-2010'', IntV 80, IntV 200],
              [Str ''B'', Str ''Rock'', Str ''15-07-2015'', IntV 40, IntV 180]]\<rparr>"

definition example_df :: dataframe where
  "example_df =
     \<lparr>columns = [''Title'', ''Genre'', ''Release Date'', ''Popularity'', ''Duration'',
                 ''release_datetime'', ''release_year''],
      rows = [[Str ''A'', Str ''Pop'', Str ''01-06-2010'', IntV 80, IntV 200,
               Timestamp \<lparr>year = 2010, month = 6, day = 1\<rparr>, IntV 2010],
              [Str ''B'', Str ''Rock'', Str ''15-07-2015'', IntV 40, IntV 180,
               Timestamp \<lparr>year = 2015, month = 7, day = 15\<rparr>, IntV 2015]]\<rparr>"

definition example_row_A :: "cell list" where
  "example_row_A =
     [Str ''A'', Str ''Pop'', Str ''01-06-2010'', IntV 80, IntV 200,
      Timestamp \<lparr>year = 2010, month = 6, day = 1\<rparr>, IntV 2010]"

text \<open>
  Two libraries for the examples: their table of digits holds the Arabic-Indic digits
  (U+0660 to U+0669, two bytes each), and their timestamps are of nanosecond and of wider
  resolution.
\<close>

definition arabic_indic :: "string \<Rightarrow> nat option" where
  "arabic_indic =
     map_of [([CHR 0xD9, CHR 0xA0], 0), ([CHR 0xD9, CHR 0xA1], 1), ([CHR 0xD9, CHR 0xA2], 2),
             ([CHR 0xD9, CHR 0xA3], 3), ([CHR 0xD9, CHR 0xA4], 4), ([CHR 0xD9, CHR 0xA5], 5),
             ([CHR 0xD9, CHR 0xA6], 6), ([CHR 0xD9, CHR 0xA7], 7), ([CHR 0xD9, CHR 0xA8], 8),
             ([CHR 0xD9, CHR 0xA9], 9)]"

definition lib_ns :: library where
  "lib_ns = \<lparr>unicode_digit = arabic_indic, wide_timestamps = False\<rparr>"




definition big_df :: dataframe where
  "big_df =
     \<lparr>columns = [''Genre'', ''Popularity''],
      rows = [[Str ''Pop'', IntV 9007199254740993],
              [Str ''Pop'', IntV 9007199254740993]]\<rparr>"

text \<open>A file with every required column but Genre.\<close>

definition csv_without_genre :: dataframe where
  "csv_without_genre =
     \<lparr>columns = [''Title'', ''Artist'', ''Release Date'', ''Popularity'', ''Duration''],
      rows = [[Str ''A'', Str ''X'', Str ''01-06-2010'', IntV 80, IntV 200]]\<rparr>"

subsection \<open>Auxiliary notions for the proofs\<close>

text \<open>A cell that can be compared with an integer without raising, and the row-wise
  reading of the mask that \<open>filtered_df\<close> builds column by column.\<close>

definition comparable :: "cell \<Rightarrow> bool" where
  "comparable c = (case c of IntV _ \<Rightarrow> True | Flt _ \<Rightarrow> True | NaN \<Rightarrow> True | _ \<Rightarrow> False)"

definition keep_row ::
  "nat \<Rightarrow> nat \<Rightarrow> nat \<Rightarrow> string list \<Rightarrow> int \<times> int \<Rightarrow> int \<times> int \<Rightarrow> cell list \<Rightarrow> bool" where
  "keep_row ig iy ip G yr pr r =
     (isin_cell G (r ! ig)
      \<and> projr (ge_cell (fst yr) (r ! iy)) \<and> projr (le_cell (snd yr) (r ! iy))
      \<and> projr (ge_cell (fst pr) (r ! ip)) \<and> projr (le_cell (snd pr) (r ! ip)))"

text \<open>The exception class that the first handler of \<open>load_data\<close> catches.\<close>

fun is_not_found :: "exn \<Rightarrow> bool" where
  "is_not_found (FileNotFoundError m) = True"
| "is_not_found _ = False"

fun str_of_cell :: "cell \<Rightarrow> string" where
  "str_of_cell (Str s) = s"
| "str_of_cell _ = []"


definition songs_df :: dataframe where
  "songs_df =
     \<lparr>columns = [''Title'', ''Artist'', ''Genre'', ''Release Date'', ''Popularity'', ''Duration'',
                 ''release_datetime'', ''release_year''],
      rows = [[Str ''A'', Str ''X'', Str ''Pop'', Str ''01-06-2010'', IntV 80, IntV 200,
               Timestamp \<lparr>year = 2010, month = 6, day = 1\<rparr>, IntV 2010],
              [Str ''B'', Str ''Y'', Str ''Rock'', Str ''15-07-2015'', IntV 40, IntV 180,
               Timestamp \<lparr>year = 2015, month = 7, day = 15\<rparr>, IntV 2015],
              [Str ''C'', Str ''X'', Str ''Pop'', Str ''02-03-2012'', IntV 60, IntV 210,
               Timestamp \<lparr>year = 2012, month = 3, day = 2\<rparr>, IntV 2012]]\<rparr>"

definition songs_pop_view :: dataframe where
  "songs_pop_view = songs_df\<lparr>rows := [rows songs_df ! 0, rows songs_df ! 2]\<rparr>"

section \<open>Lemmas about the library operations\<close>

lemma bind_exn_Inr_iff: "bind_exn m f = Inr y \<longleftrightarrow> (\<exists>x. m = Inr x \<and> f x = Inr y)"
  by (cases m) (simp_all add: bind_exn_def)

lemma bind_exn_simps [simp]: "bind_exn (Inl e) f = Inl e" "bind_exn (Inr x) f = f x"
  by (simp_all add: bind_exn_def)

lemma map_exn_Inr_iff:
  "map_exn f xs = Inr ys \<longleftrightarrow> list_all2 (\<lambda>x y. f x = Inr y) xs ys"
proof (induction xs arbitrary: ys)
  case Nil
  then show ?case by auto
next
  case (Cons x xs)
  show ?case
    by (cases ys) (auto simp: bind_exn_Inr_iff Cons.IH)
qed

lemma map_exn_total:
  "(\<And>x. x \<in> set xs \<Longrightarrow> f x = Inr (g x)) \<Longrightarrow> map_exn f xs = Inr (map g xs)"
  by (simp add: map_exn_Inr_iff list_all2_conv_all_nth)

lemma map_exn_Inr_D:
  assumes "map_exn f xs = Inr ys"
  shows "ys = map (\<lambda>x. projr (f x)) xs" and "\<And>x. x \<in> set xs \<Longrightarrow> f x = Inr (projr (f x))"
proof -
  from assms have a: "list_all2 (\<lambda>x y. f x = Inr y) xs ys" by (simp add: map_exn_Inr_iff)
  then have len: "length xs = length ys" by (rule list_all2_lengthD)
  from a have nth: "\<And>i. i < length xs \<Longrightarrow> f (xs ! i) = Inr (ys ! i)"
    by (simp add: list_all2_conv_all_nth)
  show "ys = map (\<lambda>x. projr (f x)) xs"
    by (rule nth_equalityI) (simp_all add: len [symmetric] nth)
  fix x assume "x \<in> set xs"
  then obtain i where "i < length xs" "x = xs ! i" by (auto simp: in_set_conv_nth)
  then show "f x = Inr (projr (f x))" using nth by simp
qed

lemma filter_zip_map:
  "map fst (filter snd (zip (map f xs) (map p xs))) = map f (filter p xs)"
  by (induction xs) auto

lemma filter_zip_map_id:
  "map fst (filter snd (zip xs (map p xs))) = filter p xs"
  using filter_zip_map [of "\<lambda>x. x" xs p] by simp

lemma and_series_map:
  "and_series (map p xs) (map q xs) = map (\<lambda>x. p x \<and> q x) xs"
  by (induction xs) (simp_all add: and_series_def)

lemma ge_cell_comparable: "(\<exists>b. ge_cell a c = Inr b) \<longleftrightarrow> comparable c"
  by (cases c) (auto simp: comparable_def)

lemma le_cell_comparable: "(\<exists>b. le_cell a c = Inr b) \<longleftrightarrow> comparable c"
  by (cases c) (auto simp: comparable_def)

lemma map_exn_ge_iff:
  "map_exn (ge_cell a) col = Inr m \<longleftrightarrow>
     (\<forall>c \<in> set col. comparable c) \<and> m = map (\<lambda>c. projr (ge_cell a c)) col"
proof
  assume h: "map_exn (ge_cell a) col = Inr m"
  have "\<forall>c \<in> set col. comparable c"
    using map_exn_Inr_D(2) [OF h] ge_cell_comparable by blast
  then show "(\<forall>c \<in> set col. comparable c) \<and> m = map (\<lambda>c. projr (ge_cell a c)) col"
    using map_exn_Inr_D(1) [OF h] by simp
next
  assume h: "(\<forall>c \<in> set col. comparable c) \<and> m = map (\<lambda>c. projr (ge_cell a c)) col"
  have "map_exn (ge_cell a) col = Inr (map (\<lambda>c. projr (ge_cell a c)) col)"
  proof (rule map_exn_total)
    fix x assume "x \<in> set col"
    with h have "comparable x" by simp
    then obtain b where "ge_cell a x = Inr b" using ge_cell_comparable by blast
    then show "ge_cell a x = Inr (projr (ge_cell a x))" by simp
  qed
  with h show "map_exn (ge_cell a) col = Inr m" by simp
qed

lemma map_exn_le_iff:
  "map_exn (le_cell a) col = Inr m \<longleftrightarrow>
     (\<forall>c \<in> set col. comparable c) \<and> m = map (\<lambda>c. projr (le_cell a c)) col"
proof
  assume h: "map_exn (le_cell a) col = Inr m"
  have "\<forall>c \<in> set col. comparable c"
    using map_exn_Inr_D(2) [OF h] le_cell_comparable by blast
  then show "(\<forall>c \<in> set col. comparable c) \<and> m = map (\<lambda>c. projr (le_cell a c)) col"
    using map_exn_Inr_D(1) [OF h] by simp
next
  assume h: "(\<forall>c \<in> set col. comparable c) \<and> m = map (\<lambda>c. projr (le_cell a c)) col"
  have "map_exn (le_cell a) col = Inr (map (\<lambda>c. projr (le_cell a c)) col)"
  proof (rule map_exn_total)
    fix x assume "x \<in> set col"
    with h have "comparable x" by simp
    then obtain b where "le_cell a x = Inr b" using le_cell_comparable by blast
    then show "le_cell a x = Inr (projr (le_cell a x))" by simp
  qed
  with h show "map_exn (le_cell a) col = Inr m" by simp
qed

lemma get_column_Inr_iff:
  "get_column name df = Inr col \<longleftrightarrow>
     (\<exists>i. col_index name (columns df) = Some i \<and> col = map (\<lambda>r. r ! i) (rows df))"
  by (auto simp: get_column_def split: option.splits)

lemma filtered_df_Inr_iff:
  "filtered_df df G yr pr = Inr f \<longleftrightarrow>
     (\<exists>ig iy ip.
        col_index ''Genre'' (columns df) = Some ig
      \<and> col_index ''release_year'' (columns df) = Some iy
      \<and> col_index ''Popularity'' (columns df) = Some ip
      \<and> (\<forall>r \<in> set (rows df). comparable (r ! iy) \<and> comparable (r ! ip))
      \<and> f = df\<lparr>rows := filter (keep_row ig iy ip G yr pr) (rows df)\<rparr>)"
  unfolding filtered_df_def Let_def bind_exn_Inr_iff get_column_Inr_iff
    map_exn_ge_iff map_exn_le_iff
  by (auto simp: isin_def and_series_map boolean_index_def filter_zip_map_id keep_row_def
        cong: filter_cong)

lemma col_index_Some_D: "col_index n cs = Some i \<Longrightarrow> i < length cs \<and> cs ! i = n"
  by (induction cs arbitrary: i) (auto split: if_splits option.splits)

lemma col_index_None_iff: "col_index n cs = None \<longleftrightarrow> n \<notin> set cs"
  by (induction cs) (auto split: option.splits)

lemma col_index_append:
  "col_index n (cs @ [m]) =
     (case col_index n cs of Some i \<Rightarrow> Some i
      | None \<Rightarrow> if m = n then Some (length cs) else None)"
  by (induction cs) (auto split: option.splits)

lemma wf_df_nth: "wf_df df \<Longrightarrow> r \<in> set (rows df) \<Longrightarrow> length r = length (columns df)"
  by (simp add: wf_df_def list_all_iff)

lemma get_column_length: "get_column n df = Inr col \<Longrightarrow> length col = length (rows df)"
  by (auto simp: get_column_Inr_iff)

lemma map_zip_eq_left:
  assumes "length xs = length ys" and "\<And>x y. x \<in> set xs \<Longrightarrow> h (x, y) = g x"
  shows "map h (zip xs ys) = map g xs"
  using assms by (induction xs ys rule: list_induct2) auto

lemma map_zip_eq_right:
  assumes "length xs = length ys" and "\<And>x y. x \<in> set xs \<Longrightarrow> h (x, y) = y"
  shows "map h (zip xs ys) = ys"
  using assms by (induction xs ys rule: list_induct2) auto

lemma set_column_length:
  "length vals = length (rows df) \<Longrightarrow> length (rows (set_column n vals df)) = length (rows df)"
  by (simp add: set_column_def split: option.splits)

lemma set_column_wf:
  assumes "wf_df df"
  shows "wf_df (set_column n vals df)"
  using assms
  by (auto simp: set_column_def wf_df_def list_all_iff split: option.splits dest!: set_zip_leftD)

lemma get_set_column_same:
  assumes wf: "wf_df df" and len: "length vals = length (rows df)"
  shows "get_column n (set_column n vals df) = Inr vals"
proof (cases "col_index n (columns df)")
  case None
  have "map ((\<lambda>r. r ! length (columns df)) \<circ> (\<lambda>(r, v). r @ [v])) (zip (rows df) vals) = vals"
    by (rule map_zip_eq_right) (use len wf_df_nth [OF wf] in \<open>auto simp: nth_append\<close>)
  with None show ?thesis
    by (simp add: get_column_def set_column_def col_index_append)
next
  case (Some i)
  then have i: "i < length (columns df)" using col_index_Some_D by blast
  have "map ((\<lambda>r. r ! i) \<circ> (\<lambda>(r, v). r[i := v])) (zip (rows df) vals) = vals"
    by (rule map_zip_eq_right) (use wf len i in \<open>auto simp: wf_df_nth\<close>)
  with Some show ?thesis
    by (simp add: get_column_def set_column_def)
qed

lemma get_set_column_other:
  assumes wf: "wf_df df" and len: "length vals = length (rows df)" and ne: "m \<noteq> n"
  shows "get_column m (set_column n vals df) = get_column m df"
proof (cases "col_index n (columns df)")
  case None
  show ?thesis
  proof (cases "col_index m (columns df)")
    case None': None
    with None ne show ?thesis
      by (simp add: get_column_def set_column_def col_index_append)
  next
    case (Some j)
    then have j: "j < length (columns df)" using col_index_Some_D by blast
    have "map ((\<lambda>r. r ! j) \<circ> (\<lambda>(r, v). r @ [v])) (zip (rows df) vals) = map (\<lambda>r. r ! j) (rows df)"
      by (rule map_zip_eq_left) (use wf len j in \<open>auto simp: wf_df_nth nth_append\<close>)
    with None Some ne show ?thesis
      by (simp add: get_column_def set_column_def col_index_append)
  qed
next
  case (Some i)
  show ?thesis
  proof (cases "col_index m (columns df)")
    case None
    with Some show ?thesis
      by (simp add: get_column_def set_column_def)
  next
    case Some': (Some j)
    from Some Some' ne have "i \<noteq> j" using col_index_Some_D by blast
    then have "map ((\<lambda>r. r ! j) \<circ> (\<lambda>(r, v). r[i := v])) (zip (rows df) vals) = map (\<lambda>r. r ! j) (rows df)"
      by (intro map_zip_eq_left) (use len in auto)
    with Some Some' show ?thesis
      by (simp add: get_column_def set_column_def)
  qed
qed

lemma map_nth_filter_zip:
  "map (f \<circ> fst) (filter snd (zip xs k)) = map fst (filter snd (zip (map f xs) k))"
  by (induction xs arbitrary: k) (auto simp: zip_Cons1 split: list.splits)

lemma get_column_boolean_index:
  "get_column m df = Inr col \<Longrightarrow>
   get_column m (boolean_index k df) = Inr (map fst (filter snd (zip col k)))"
  by (auto simp: get_column_Inr_iff boolean_index_def map_nth_filter_zip)

lemma boolean_index_wf: "wf_df df \<Longrightarrow> wf_df (boolean_index k df)"
  by (auto simp: wf_df_def boolean_index_def list_all_iff dest!: set_zip_leftD)

lemma boolean_index_columns [simp]: "columns (boolean_index k df) = columns df"
  by (simp add: boolean_index_def)

lemma int_column_D:
  "int_column name df \<Longrightarrow>
   \<exists>i. col_index name (columns df) = Some i \<and> (\<forall>r \<in> set (rows df). is_int_cell (r ! i))"
  by (auto simp: int_column_def get_column_def list_all_iff split: option.splits)

lemma str_column_D:
  "str_column name df \<Longrightarrow>
   \<exists>i. col_index name (columns df) = Some i \<and> (\<forall>r \<in> set (rows df). is_str_cell (r ! i))"
  by (auto simp: str_column_def get_column_def list_all_iff split: option.splits)

lemma is_int_cell_comparable: "is_int_cell c \<Longrightarrow> comparable c"
  by (cases c) (simp_all add: comparable_def)

lemma is_int_cell_eq: "is_int_cell c \<Longrightarrow> c = IntV (int_of_cell c)"
  by (cases c) simp_all

lemma is_str_cell_eq: "is_str_cell c \<Longrightarrow> c = Str (str_of_cell c)"
  by (cases c) simp_all

lemma keep_row_spec:
  assumes "col_index ''Genre'' (columns df) = Some ig"
    and "col_index ''release_year'' (columns df) = Some iy"
    and "col_index ''Popularity'' (columns df) = Some ip"
    and "is_int_cell (r ! iy)" and "is_int_cell (r ! ip)"
  shows "keep_row ig iy ip G yr pr r = spec_retained df G yr pr r"
proof -
  obtain y p where "r ! iy = IntV y" "r ! ip = IntV p"
    using assms(4,5) by (cases "r ! iy"; cases "r ! ip") simp_all
  with assms(1-3) show ?thesis
    by (cases "r ! ig") (auto simp: keep_row_def spec_retained_def row_attr_def)
qed

lemma filtered_df_typed:
  assumes "has_column ''Genre'' df" and "int_column ''release_year'' df"
    and "int_column ''Popularity'' df"
  shows "filtered_df df G yr pr = Inr (df\<lparr>rows := filter (spec_retained df G yr pr) (rows df)\<rparr>)"
proof -
  from assms(1) obtain ig where ig: "col_index ''Genre'' (columns df) = Some ig"
    by (auto simp: has_column_def)
  from int_column_D [OF assms(2)] obtain iy where
    iy: "col_index ''release_year'' (columns df) = Some iy"
    and ty: "\<forall>r \<in> set (rows df). is_int_cell (r ! iy)" by blast
  from int_column_D [OF assms(3)] obtain ip where
    ip: "col_index ''Popularity'' (columns df) = Some ip"
    and tp: "\<forall>r \<in> set (rows df). is_int_cell (r ! ip)" by blast
  have "filter (keep_row ig iy ip G yr pr) (rows df) = filter (spec_retained df G yr pr) (rows df)"
    by (rule filter_cong) (use ig iy ip ty tp in \<open>simp_all add: keep_row_spec\<close>)
  moreover have "\<forall>r \<in> set (rows df). comparable (r ! iy) \<and> comparable (r ! ip)"
    using ty tp is_int_cell_comparable by blast
  ultimately show ?thesis
    using ig iy ip by (simp add: filtered_df_Inr_iff)
qed

lemma somes_map_Some: "somes (map (\<lambda>x. Some (g x)) xs) = map g xs"
  by (induction xs) simp_all

lemma sum_counts_sort_remdups:
  fixes ys :: "'a::linorder list"
  shows "sum_list (map (\<lambda>k. length (filter (\<lambda>x. x = k) ys)) (sort (remdups ys))) = length ys"
proof -
  have "sum_list (map (\<lambda>k. length (filter (\<lambda>x. x = k) ys)) (sort (remdups ys)))
        = sum (\<lambda>k. length (filter (\<lambda>x. x = k) ys)) (set (sort (remdups ys)))"
    by (rule sum_list_distinct_conv_sum_set) simp
  also have "\<dots> = sum (count_list ys) (set ys)"
    by (simp add: count_list_eq_length_filter eq_commute)
  also have "\<dots> = length ys"
    by (rule sum_count_set) simp_all
  finally show ?thesis .
qed

lemma sum_list_lower:
  fixes vs :: "real list"
  shows "\<forall>v \<in> set vs. m \<le> v \<Longrightarrow> real (length vs) * m \<le> sum_list vs"
proof (induction vs)
  case Nil
  then show ?case by simp
next
  case (Cons a vs)
  then have "m \<le> a" and "real (length vs) * m \<le> sum_list vs" by simp_all
  then have "m + real (length vs) * m \<le> a + sum_list vs" by (rule add_mono)
  then show ?case by (simp add: algebra_simps)
qed

lemma sum_list_upper:
  fixes vs :: "real list"
  shows "\<forall>v \<in> set vs. v \<le> m \<Longrightarrow> sum_list vs \<le> real (length vs) * m"
proof (induction vs)
  case Nil
  then show ?case by simp
next
  case (Cons a vs)
  then have "a \<le> m" and "sum_list vs \<le> real (length vs) * m" by simp_all
  then have "a + sum_list vs \<le> m + real (length vs) * m" by (rule add_mono)
  then show ?case by (simp add: algebra_simps)
qed

lemma mean_bounds:
  fixes vs :: "real list"
  assumes "vs \<noteq> []"
  shows "Min (set vs) \<le> sum_list vs / real (length vs)
       \<and> sum_list vs / real (length vs) \<le> Max (set vs)"
proof -
  have pos: "0 < real (length vs)" using assms by simp
  have "real (length vs) * Min (set vs) \<le> sum_list vs"
    by (rule sum_list_lower) simp
  moreover have "sum_list vs \<le> real (length vs) * Max (set vs)"
    by (rule sum_list_upper) simp
  ultimately show ?thesis using pos
    by (simp add: pos_le_divide_eq pos_divide_le_eq mult.commute)
qed

lemma zip_map_same: "zip (map f xs) (map g xs) = map (\<lambda>x. (f x, g x)) xs"
  by (induction xs) simp_all

lemma group_values:
  "somes (map snd (filter (\<lambda>kv. fst kv = Some k) (map (\<lambda>r. (Some (f r), Some (g r))) xs)))
   = map g (filter (\<lambda>r. f r = k) xs)"
  by (induction xs) simp_all

lemma sample_within_population:
  "n \<le> length (rows df) \<Longrightarrow> n \<le> length perm \<Longrightarrow>
   \<exists>s. sample perm n df = Inr s \<and> length (rows s) = n \<and> columns s = columns df"
  by (simp add: sample_def)

subsection \<open>The parser and the loader\<close>

lemma map_of_digits_le: "map_of digits b = Some v \<Longrightarrow> v \<le> 9"
  by (auto simp: digits_def split: if_splits)

lemma any_digit_le: "any_digit lib ch = Some v \<Longrightarrow> v \<le> 9"
  by (cases "(lib, ch)" rule: any_digit.cases)
     (auto simp: map_of_digits_le split: option.splits if_splits)

lemma match_Y_le: "match_Y lib chs = Some y \<Longrightarrow> y \<le> 9999"
proof (cases "(lib, chs)" rule: match_Y.cases)
  case (1 lib' a b c d)
  assume m: "match_Y lib chs = Some y"
  with 1 obtain w x u z where
    "any_digit lib a = Some w" "any_digit lib b = Some x"
    "any_digit lib c = Some u" "any_digit lib d = Some z"
    and y: "y = 1000 * w + 100 * x + 10 * u + z"
    by (auto split: option.splits)
  then have "w \<le> 9" "x \<le> 9" "u \<le> 9" "z \<le> 9" using any_digit_le by blast+
  with y show ?thesis by simp
qed auto

lemma strptime_year: "strptime lib s = Some d \<Longrightarrow> 1 \<le> year d \<and> year d \<le> 9999"
  by (auto simp: strptime_def split: list.splits option.splits if_splits dest: match_Y_le)

lemma to_datetime_cell_cases:
  "to_datetime_cell lib c = NaT
   \<or> (\<exists>d. to_datetime_cell lib c = Timestamp d \<and> representable lib d
           \<and> 1 \<le> year d \<and> year d \<le> 9999)"
proof (cases c)
  case (Str s)
  then show ?thesis
    using strptime_year [of lib s] by (auto split: option.splits)
next
  case (Timestamp d)
  then show ?thesis by (auto simp: valid_date_def)
qed simp_all


lemma notna_year_iff:
  "\<not> isna (dt_year_cell fl (to_datetime_cell lib c)) \<longleftrightarrow> to_datetime_cell lib c \<noteq> NaT"
  using to_datetime_cell_cases [of lib c] by (auto simp: isna_def split: if_splits)

lemma astype_int_year_cell:
  assumes "to_datetime_cell lib c \<noteq> NaT"
  shows "astype_int_cell (dt_year_cell fl (to_datetime_cell lib c))
         = Inr (dt_year_cell False (to_datetime_cell lib c))"
proof -
  from assms obtain d where "to_datetime_cell lib c = Timestamp d"
    using to_datetime_cell_cases [of lib c] by auto
  then show ?thesis by simp
qed

lemma astype_int_years:
  "astype_int (map (\<lambda>c. dt_year_cell fl (to_datetime_cell lib c))
                 (filter (\<lambda>c. to_datetime_cell lib c \<noteq> NaT) rd))
   = Inr (map (\<lambda>c. dt_year_cell False (to_datetime_cell lib c))
            (filter (\<lambda>c. to_datetime_cell lib c \<noteq> NaT) rd))"
  unfolding astype_int_def map_exn_Inr_iff
  by (simp add: list_all2_map1 list_all2_map2 list_all2_same astype_int_year_cell)

lemma col_index_Some_mem: "col_index n cs = Some i \<Longrightarrow> n \<in> set cs"
  using col_index_None_iff [of n cs] by auto

lemma set_column_columns:
  "set (columns (set_column n vals df)) = insert n (set (columns df))"
  by (auto simp: set_column_def split: option.splits dest: col_index_Some_mem)

lemma load_data_try_Inr:
  assumes wf: "wf_df src" and rd: "get_column ''Release Date'' src = Inr rd"
  shows "\<exists>ds. load_data_try lib (Inr src) = Inr ds \<and> wf_df ds
     \<and> set (columns ds) = set (columns src) \<union> {''release_datetime'', ''release_year''}
     \<and> get_column ''Release Date'' ds = Inr (filter (\<lambda>c. to_datetime_cell lib c \<noteq> NaT) rd)
     \<and> get_column ''release_datetime'' ds
         = Inr (map (to_datetime_cell lib) (filter (\<lambda>c. to_datetime_cell lib c \<noteq> NaT) rd))
     \<and> get_column ''release_year'' ds
         = Inr (map (\<lambda>c. dt_year_cell False (to_datetime_cell lib c))
                  (filter (\<lambda>c. to_datetime_cell lib c \<noteq> NaT) rd))"
proof -
  let ?keep = "\<lambda>c. to_datetime_cell lib c \<noteq> NaT"
  define fl where "fl = (NaT \<in> set (to_datetime lib rd))"
  let ?yr = "\<lambda>c. dt_year_cell fl (to_datetime_cell lib c)"
  define df1 where "df1 = set_column ''release_datetime'' (to_datetime lib rd) src"
  define df2 where "df2 = set_column ''release_year'' (dt_year (to_datetime lib rd)) df1"
  define k where "k = map (\<lambda>c. \<not> isna c) (dt_year (to_datetime lib rd))"
  define df3 where "df3 = boolean_index k df2"
  define ry where "ry = map ?yr (filter ?keep rd)"
  define ry' where "ry' = map (\<lambda>c. dt_year_cell False (to_datetime_cell lib c)) (filter ?keep rd)"
  define ds where "ds = set_column ''release_year'' ry' df3"
  have yrs: "dt_year (to_datetime lib rd) = map ?yr rd"
    by (simp add: dt_year_def fl_def to_datetime_def)
  have len: "length rd = length (rows src)" using rd by (rule get_column_length)
  have len1: "length (to_datetime lib rd) = length (rows src)" by (simp add: to_datetime_def len)
  have wf1: "wf_df df1" unfolding df1_def using wf by (rule set_column_wf)
  have rows1: "length (rows df1) = length (rows src)"
    unfolding df1_def using len1 by (rule set_column_length)
  have dt1: "get_column ''release_datetime'' df1 = Inr (to_datetime lib rd)"
    unfolding df1_def using wf len1 by (rule get_set_column_same)
  have rd1: "get_column ''Release Date'' df1 = Inr rd"
    unfolding df1_def
    using get_set_column_other [OF wf len1, of "''Release Date''" "''release_datetime''"] rd
    by simp
  have len2: "length (dt_year (to_datetime lib rd)) = length (rows df1)"
    by (simp add: yrs len rows1)
  have wf2: "wf_df df2" unfolding df2_def using wf1 by (rule set_column_wf)
  have ry2: "get_column ''release_year'' df2 = Inr (dt_year (to_datetime lib rd))"
    unfolding df2_def using wf1 len2 by (rule get_set_column_same)
  have dt2: "get_column ''release_datetime'' df2 = Inr (to_datetime lib rd)"
    unfolding df2_def
    using get_set_column_other [OF wf1 len2, of "''release_datetime''" "''release_year''"] dt1
    by simp
  have rd2: "get_column ''Release Date'' df2 = Inr rd"
    unfolding df2_def
    using get_set_column_other [OF wf1 len2, of "''Release Date''" "''release_year''"] rd1
    by simp
  have k: "k = map ?keep rd"
    by (simp add: k_def yrs notna_year_iff)
  have drop: "dropna ''release_year'' df2 = Inr df3"
    by (simp add: dropna_def ry2 df3_def k_def)
  have wf3: "wf_df df3" unfolding df3_def using wf2 by (rule boolean_index_wf)
  have ry3: "get_column ''release_year'' df3 = Inr ry"
    unfolding df3_def using get_column_boolean_index [OF ry2, of k]
    by (simp add: k yrs filter_zip_map ry_def)
  have dt3: "get_column ''release_datetime'' df3
               = Inr (map (to_datetime_cell lib) (filter ?keep rd))"
    unfolding df3_def using get_column_boolean_index [OF dt2, of k]
    by (simp add: k to_datetime_def filter_zip_map)
  have rd3: "get_column ''Release Date'' df3 = Inr (filter ?keep rd)"
    unfolding df3_def using get_column_boolean_index [OF rd2, of k]
    by (simp add: k filter_zip_map_id)
  have len3: "length ry' = length (rows df3)"
    using get_column_length [OF ry3] by (simp add: ry_def ry'_def)
  have ast: "astype_int ry = Inr ry'" unfolding ry_def ry'_def by (rule astype_int_years)
  have wf4: "wf_df ds" unfolding ds_def using wf3 by (rule set_column_wf)
  have ry4: "get_column ''release_year'' ds = Inr ry'"
    unfolding ds_def using wf3 len3 by (rule get_set_column_same)
  have dt4: "get_column ''release_datetime'' ds
               = Inr (map (to_datetime_cell lib) (filter ?keep rd))"
    unfolding ds_def
    using get_set_column_other [OF wf3 len3, of "''release_datetime''" "''release_year''"] dt3
    by simp
  have rd4: "get_column ''Release Date'' ds = Inr (filter ?keep rd)"
    unfolding ds_def
    using get_set_column_other [OF wf3 len3, of "''Release Date''" "''release_year''"] rd3
    by simp
  have cols: "set (columns ds) = set (columns src) \<union> {''release_datetime'', ''release_year''}"
    by (auto simp: ds_def df3_def df2_def df1_def set_column_columns)
  have "load_data_try lib (Inr src) = Inr ds"
    by (simp add: load_data_try_def rd Let_def df1_def [symmetric] dt1 df2_def [symmetric]
          drop ry3 ast ds_def)
  with wf4 cols ry4 dt4 rd4 show ?thesis unfolding ry'_def by blast
qed

lemma load_data_try_KeyError:
  "col_index ''Release Date'' (columns src) = None \<Longrightarrow>
   load_data_try lib (Inr src) = Inl (KeyError ''Release Date'')"
  by (simp add: load_data_try_def get_column_def)

lemma load_data_try_Inl: "load_data_try lib (Inl e) = Inl e"
  by (simp add: load_data_try_def)

lemma load_data_Returned_iff:
  "load_data lib rc = (shown, Returned ds) \<longleftrightarrow> shown = [] \<and> load_data_try lib rc = Inr ds"
  by (auto simp: load_data_def split: sum.splits exn.splits)

lemma load_data_try_source:
  "load_data_try lib (Inr src) = Inr ds \<Longrightarrow> \<exists>rd. get_column ''Release Date'' src = Inr rd"
  by (cases "get_column ''Release Date'' src") (simp_all add: load_data_try_def)



lemma loaded_release_year_int:
  assumes "wf_df src" and "load_data lib (Inr src) = (shown, Returned ds)"
  shows "int_column ''release_year'' ds"
proof -
  from assms(2) have tr: "load_data_try lib (Inr src) = Inr ds"
    by (simp add: load_data_Returned_iff)
  from load_data_try_source [OF tr] obtain rd where
    rd: "get_column ''Release Date'' src = Inr rd" by blast
  from load_data_try_Inr [OF assms(1) rd, of lib] tr
  have c: "get_column ''release_year'' ds
       = Inr (map (\<lambda>c. dt_year_cell False (to_datetime_cell lib c))
                (filter (\<lambda>c. to_datetime_cell lib c \<noteq> NaT) rd))"
    by auto
  have "is_int_cell (dt_year_cell False (to_datetime_cell lib c))"
    if "to_datetime_cell lib c \<noteq> NaT" for c
    using that to_datetime_cell_cases [of lib c] by auto
  then show ?thesis
    by (simp add: int_column_def c list_all_iff)
qed

subsection \<open>Rounding and the mean\<close>

lemma bit_length_le: "n < 2 ^ k \<Longrightarrow> bit_length n \<le> k"
proof (induction n arbitrary: k rule: bit_length.induct)
  case (1 n)
  show ?case
  proof (cases "n \<le> 0")
    case True
    then show ?thesis by (simp add: bit_length.simps)
  next
    case False
    then have pos: "0 < n" by simp
    with "1.prems" obtain k' where k: "k = Suc k'"
      by (cases k) auto
    with "1.prems" have "n div 2 < 2 ^ k'" by simp
    with "1.IH" False have "bit_length (n div 2) \<le> k'" by simp
    with False k show ?thesis by (simp add: bit_length.simps [of n])
  qed
qed

lemma f64_exponent_le:
  assumes "\<bar>x\<bar> < 2 ^ 53"
  shows "f64_exponent x - 52 \<le> 0"
proof (cases "1 \<le> \<bar>x\<bar>")
  case True
  have "\<lfloor>\<bar>x\<bar>\<rfloor> < 2 ^ 53"
    using assms by (simp add: floor_less_iff)
  then have "bit_length \<lfloor>\<bar>x\<bar>\<rfloor> \<le> 53" by (rule bit_length_le)
  with True show ?thesis by (simp add: f64_exponent_def)
next
  case False
  then show ?thesis by (simp add: f64_exponent_def)
qed

lemma pow2_nonpos: "j \<le> 0 \<Longrightarrow> pow2 j = 1 / 2 ^ nat (- j)"
  by (cases "j = 0") (simp_all add: pow2_def)

lemma round_half_even_lower: "real_of_int z \<le> y \<Longrightarrow> z \<le> round_half_even y"
proof -
  assume "real_of_int z \<le> y"
  then have "z \<le> \<lfloor>y\<rfloor>" by (simp add: le_floor_iff)
  then show ?thesis by (simp add: round_half_even_def Let_def)
qed

lemma round_half_even_upper: "y \<le> real_of_int z \<Longrightarrow> round_half_even y \<le> z"
proof (cases "y = real_of_int z")
  case True
  then show ?thesis by (simp add: round_half_even_def Let_def)
next
  case False
  assume "y \<le> real_of_int z"
  with False have "y < real_of_int z" by simp
  then have "\<lfloor>y\<rfloor> < z" by (simp add: floor_less_iff)
  then show ?thesis by (simp add: round_half_even_def Let_def)
qed

lemma f64_grid:
  assumes "\<bar>x\<bar> < 2 ^ 53" and "x \<noteq> 0"
  shows "\<exists>n. f64 x = real_of_int (round_half_even (x * 2 ^ n)) / 2 ^ n"
proof -
  define j where "j = max (f64_exponent x - 52) (- 1074)"
  have "j \<le> 0" using f64_exponent_le [OF assms(1)] by (simp add: j_def)
  then have "pow2 j = 1 / 2 ^ nat (- j)" by (rule pow2_nonpos)
  then have "f64 x = real_of_int (round_half_even (x * 2 ^ nat (- j))) / 2 ^ nat (- j)"
    using assms(2) by (simp add: f64_def Let_def j_def [symmetric])
  then show ?thesis by blast
qed

lemma f64_int_lower:
  assumes "\<bar>x\<bar> < 2 ^ 53" and "real_of_int a \<le> x"
  shows "real_of_int a \<le> f64 x"
proof (cases "x = 0")
  case True
  with assms(2) show ?thesis by (simp add: f64_def)
next
  case False
  from f64_grid [OF assms(1) False] obtain n where
    n: "f64 x = real_of_int (round_half_even (x * 2 ^ n)) / 2 ^ n" by blast
  have "real_of_int (a * 2 ^ n) \<le> x * 2 ^ n" using assms(2) by simp
  then have "a * 2 ^ n \<le> round_half_even (x * 2 ^ n)" by (rule round_half_even_lower)
  then have "real_of_int (a * 2 ^ n) \<le> real_of_int (round_half_even (x * 2 ^ n))"
    by (simp only: of_int_le_iff)
  then have "real_of_int a * 2 ^ n \<le> real_of_int (round_half_even (x * 2 ^ n))" by simp
  then show ?thesis unfolding n by (simp add: pos_le_divide_eq)
qed

lemma f64_int_upper:
  assumes "\<bar>x\<bar> < 2 ^ 53" and "x \<le> real_of_int a"
  shows "f64 x \<le> real_of_int a"
proof (cases "x = 0")
  case True
  with assms(2) show ?thesis by (simp add: f64_def)
next
  case False
  from f64_grid [OF assms(1) False] obtain n where
    n: "f64 x = real_of_int (round_half_even (x * 2 ^ n)) / 2 ^ n" by blast
  have "x * 2 ^ n \<le> real_of_int (a * 2 ^ n)" using assms(2) by simp
  then have "round_half_even (x * 2 ^ n) \<le> a * 2 ^ n" by (rule round_half_even_upper)
  then have "real_of_int (round_half_even (x * 2 ^ n)) \<le> real_of_int (a * 2 ^ n)"
    by (simp only: of_int_le_iff)
  then have "real_of_int (round_half_even (x * 2 ^ n)) \<le> real_of_int a * 2 ^ n" by simp
  then show ?thesis unfolding n by (simp add: pos_divide_le_eq)
qed

lemma f64_int:
  assumes "\<bar>i\<bar> < 2 ^ 53"
  shows "f64 (real_of_int i) = real_of_int i"
proof -
  have "\<bar>real_of_int i\<bar> < 2 ^ 53"
  proof -
    have "real_of_int \<bar>i\<bar> < real_of_int (2 ^ 53)" using assms by (simp only: of_int_less_iff)
    then show ?thesis by simp
  qed
  then have "real_of_int i \<le> f64 (real_of_int i)" "f64 (real_of_int i) \<le> real_of_int i"
    using f64_int_lower [of "real_of_int i" i] f64_int_upper [of "real_of_int i" i] by simp_all
  then show ?thesis by simp
qed

lemma kahan_exact:
  "\<bar>s\<bar> + sum_list (map abs is) < 2 ^ 53 \<Longrightarrow>
   foldl kahan_step (real_of_int s, 0) (map real_of_int is)
     = (real_of_int (s + sum_list is), 0)"
proof (induction "is" arbitrary: s)
  case Nil
  then show ?case by simp
next
  case (Cons i "is")
  have nn: "0 \<le> sum_list (map abs is)" by (rule sum_list_nonneg) auto
  have bi: "\<bar>i\<bar> < 2 ^ 53" and bs: "\<bar>s + i\<bar> < 2 ^ 53"
    using Cons.prems nn by auto
  have y: "f64 (real_of_int i) = real_of_int i" using bi by (rule f64_int)
  have t: "f64 (real_of_int s + real_of_int i) = real_of_int (s + i)"
    using f64_int [OF bs] by simp
  have z: "f64 0 = 0" by (simp add: f64_def)
  have step: "kahan_step (real_of_int s, 0) (real_of_int i) = (real_of_int (s + i), 0)"
    by (simp add: kahan_step_def Let_def y t z)
  have "\<bar>s + i\<bar> + sum_list (map abs is) < 2 ^ 53" using Cons.prems by auto
  from Cons.IH [OF this] step show ?case by (simp add: add.assoc)
qed

lemma abs_le_sum_list_abs:
  fixes xs :: "int list"
  shows "x \<in> set xs \<Longrightarrow> \<bar>x\<bar> \<le> sum_list (map abs xs)"
proof (induction xs)
  case Nil
  then show ?case by simp
next
  case (Cons a xs)
  have "0 \<le> sum_list (map abs xs)" by (rule sum_list_nonneg) auto
  with Cons show ?case by auto
qed

lemma sum_list_abs_filter:
  fixes f :: "'a \<Rightarrow> int"
  shows "sum_list (map (\<lambda>x. \<bar>f x\<bar>) (filter P xs)) \<le> sum_list (map (\<lambda>x. \<bar>f x\<bar>) xs)"
  by (induction xs) auto

lemma real_of_int_sum_list: "real_of_int (sum_list is) = sum_list (map real_of_int is)"
  by (induction "is") simp_all

lemma mean_exact_bounds:
  fixes "is" :: "int list"
  assumes ne: "is \<noteq> []" and mag: "sum_list (map abs is) < 2 ^ 53"
  shows "mean (map real_of_int is)
           = Flt (f64 (sum_list (map real_of_int is) / real (length is)))"
    and "Min (set (map real_of_int is)) \<le> f64 (sum_list (map real_of_int is) / real (length is))"
    and "f64 (sum_list (map real_of_int is) / real (length is)) \<le> Max (set (map real_of_int is))"
proof -
  let ?vs = "map real_of_int is"
  let ?q = "sum_list ?vs / real (length is)"
  have "foldl kahan_step (real_of_int 0, 0) ?vs = (real_of_int (0 + sum_list is), 0)"
    by (rule kahan_exact) (use mag in simp)
  then have "foldl kahan_step (0, 0) ?vs = (sum_list ?vs, 0)"
    by (simp add: real_of_int_sum_list)
  then show "mean ?vs = Flt (f64 ?q)" using ne by (simp add: mean_def)
  have vne: "?vs \<noteq> []" using ne by simp
  from mean_bounds [OF vne] have lo: "Min (set ?vs) \<le> ?q" and hi: "?q \<le> Max (set ?vs)"
    by simp_all
  have "Min (set ?vs) \<in> set ?vs" using vne by (intro Min_in) simp_all
  then obtain a where a: "a \<in> set is" "Min (set ?vs) = real_of_int a" by auto
  have "Max (set ?vs) \<in> set ?vs" using vne by (intro Max_in) simp_all
  then obtain b where b: "b \<in> set is" "Max (set ?vs) = real_of_int b" by auto
  have "\<bar>a\<bar> < 2 ^ 53" "\<bar>b\<bar> < 2 ^ 53"
    using abs_le_sum_list_abs [OF a(1)] abs_le_sum_list_abs [OF b(1)] mag by simp_all
  then have "- (2 ^ 53) < a" "b < 2 ^ 53" by simp_all
  then have "real_of_int (- (2 ^ 53)) < real_of_int a" "real_of_int b < real_of_int (2 ^ 53)"
    by (simp_all only: of_int_less_iff)
  then have "- (2 ^ 53) < ?q" "?q < 2 ^ 53" using lo hi a(2) b(2) by simp_all
  then have q: "\<bar>?q\<bar> < 2 ^ 53" by simp
  show "Min (set ?vs) \<le> f64 ?q" using f64_int_lower [OF q, of a] lo a(2) by simp
  show "f64 ?q \<le> Max (set ?vs)" using f64_int_upper [OF q, of b] hi b(2) by simp
qed

lemma keys_of_strings:
  "\<forall>c \<in> set cs. is_str_cell c \<Longrightarrow> int_keys cs = [] \<and> str_keys cs = map str_of_cell cs"
proof (induction cs)
  case Nil
  then show ?case by simp
next
  case (Cons c cs)
  then show ?case by (cases c) simp_all
qed

section \<open>The examples, evaluated\<close>

lemma strptime_example_A:
  "strptime lib ''01-06-2010'' = Some \<lparr>year = 2010, month = 6, day = 1\<rparr>"
  by (simp add: strptime_def days_in_month_def digits_def continuation_bytes_def)

lemma strptime_example_B:
  "strptime lib ''15-07-2015'' = Some \<lparr>year = 2015, month = 7, day = 15\<rparr>"
  by (simp add: strptime_def days_in_month_def digits_def continuation_bytes_def)





lemma example_load: "load_data lib (Inr example_csv) = ([], Returned example_df)"
  by (simp add: load_data_def load_data_try_def example_csv_def example_df_def get_column_def
      set_column_def to_datetime_def dt_year_def dropna_def boolean_index_def isna_def
      astype_int_def strptime_example_A strptime_example_B representable_def in_bounds_def)

lemma example_filter:
  "filtered_df example_df [''Pop''] (2000, 2020) (50, 100) = Inr (example_df\<lparr>rows := [example_row_A]\<rparr>)"
  by code_simp



lemma example_years:
  "data_songs_per_year example_df
     = Inr \<lparr>columns = [''release_year'', ''song_count''],
            rows = [[IntV 2010, IntV 1], [IntV 2015, IntV 1]]\<rparr>"
  by (simp add: data_songs_per_year_def get_column_def example_df_def)

lemma songs_avg:
  "avg_popularity_genre songs_df
     = Inr \<lparr>columns = [''Genre'', ''Popularity''],
            rows = [[Str ''Pop'', Flt 70], [Str ''Rock'', Flt 40]]\<rparr>"
  by code_simp

lemma songs_pop: "popularity_of_genre songs_df ''Pop'' = [80, 60]"
  by (simp add: popularity_of_genre_def row_attr_def songs_df_def)

lemma big_avg:
  "avg_popularity_genre big_df
     = Inr \<lparr>columns = [''Genre'', ''Popularity''],
            rows = [[Str ''Pop'', Flt 9007199254740992]]\<rparr>"
  by code_simp

lemma big_pop:
  "popularity_of_genre big_df ''Pop'' = [9007199254740993, 9007199254740993]"
  by (simp add: popularity_of_genre_def row_attr_def big_df_def)

lemma songs_explorer_run:
  "song_explorer \<lparr>var_df = songs_df, var_filtered_df = None\<rparr> [''Pop''] (2000, 2020) (50, 100)
   = ([St_subheader ''Found 2 songs matching your criteria:'',
       St_dataframe \<lparr>columns = display_cols,
          rows = [[Str ''A'', Str ''X'', Str ''Pop'', IntV 2010, IntV 80, IntV 200],
                  [Str ''C'', Str ''X'', Str ''Pop'', IntV 2012, IntV 60, IntV 210]]\<rparr>],
      \<lparr>var_df = songs_df, var_filtered_df = Some (songs_df\<lparr>rows := [rows songs_df ! 0, rows songs_df ! 2]\<rparr>)\<rparr>,
      Returned ())"
  by code_simp

lemma songs_filter:
  "filtered_df songs_df [''Pop''] (2000, 2020) (50, 100) = Inr songs_pop_view"
  by code_simp

section \<open>The claims\<close>

subsection \<open>The filter\<close>

text \<open>
  Claim C1. On a dataset with a Genre column and integer release years and popularities,
  the filter returns the dataset restricted to exactly the rows that the specification
  retains: genre among the selected genres, release year within the year range,
  popularity within the popularity range, bounds included. In particular the two-row
  example loads as \<open>example_df\<close>, and filtering it with genres {Pop}, years (2000, 2020)
  and popularity (50, 100) yields exactly the row A.
\<close>

theorem filter_retains_iff:
  assumes "has_column ''Genre'' df" and "int_column ''release_year'' df"
    and "int_column ''Popularity'' df"
  shows "filtered_df df G (y1, y2) (p1, p2)
           = Inr (df\<lparr>rows := filter (spec_retained df G (y1, y2) (p1, p2)) (rows df)\<rparr>)
       \<and> load_data lib (Inr example_csv) = ([], Returned example_df)
       \<and> filtered_df example_df [''Pop''] (2000, 2020) (50, 100)
           = Inr (example_df\<lparr>rows := [example_row_A]\<rparr>)"
  using filtered_df_typed [OF assms] example_load example_filter by simp

theorem filter_retains_iff_witness:
  "has_column ''Genre'' example_df \<and> int_column ''release_year'' example_df
   \<and> int_column ''Popularity'' example_df
   \<and> filtered_df example_df [''Rock'', ''Pop''] (2011, 2020) (0, 100)
       = Inr (example_df\<lparr>rows :=
           filter (spec_retained example_df [''Rock'', ''Pop''] (2011, 2020) (0, 100)) (rows example_df)\<rparr>)
   \<and> filter (spec_retained example_df [''Rock'', ''Pop''] (2011, 2020) (0, 100)) (rows example_df)
       = [[Str ''B'', Str ''Rock'', Str ''15-07-2015'', IntV 40, IntV 180,
           Timestamp \<lparr>year = 2015, month = 7, day = 15\<rparr>, IntV 2015]]"
proof -
  have h1: "has_column ''Genre'' example_df" by (simp add: has_column_def example_df_def)
  have h2: "int_column ''release_year'' example_df"
    by (simp add: int_column_def get_column_def example_df_def)
  have h3: "int_column ''Popularity'' example_df"
    by (simp add: int_column_def get_column_def example_df_def)
  have e: "filter (spec_retained example_df [''Rock'', ''Pop''] (2011, 2020) (0, 100)) (rows example_df)
       = [[Str ''B'', Str ''Rock'', Str ''15-07-2015'', IntV 40, IntV 180,
           Timestamp \<lparr>year = 2015, month = 7, day = 15\<rparr>, IntV 2015]]"
    by (simp add: spec_retained_def row_attr_def example_df_def)
  show ?thesis
    using h1 h2 h3 e filter_retains_iff [OF h1 h2 h3, of "[''Rock'', ''Pop'']" 2011 2020 0 100]
    by simp
qed

text \<open>
  Claim C3. With no genre selected the filter section shows the warning and halts: the
  selection is never evaluated, no result table is shown, and no view is bound. This holds
  for every dataset and every pair of ranges.
\<close>

theorem empty_selection_warns:
  "song_explorer vars [] yr pr = ([St_warning ''Please select at least one genre.''], vars, Stopped)"
  by (simp add: song_explorer_def)

text \<open>
  Claim C5. The filter is idempotent: filtering a view that the filter returned, with the
  same genres and ranges, returns the same view.
\<close>

theorem filter_idempotent:
  assumes "filtered_df df G yr pr = Inr f"
  shows "filtered_df f G yr pr = Inr f"
proof -
  from assms obtain ig iy ip where
    ix: "col_index ''Genre'' (columns df) = Some ig"
        "col_index ''release_year'' (columns df) = Some iy"
        "col_index ''Popularity'' (columns df) = Some ip"
    and cmp: "\<forall>r \<in> set (rows df). comparable (r ! iy) \<and> comparable (r ! ip)"
    and f: "f = df\<lparr>rows := filter (keep_row ig iy ip G yr pr) (rows df)\<rparr>"
    unfolding filtered_df_Inr_iff by blast
  have "filter (keep_row ig iy ip G yr pr) (rows f) = rows f"
    by (simp add: f)
  then show ?thesis
    unfolding filtered_df_Inr_iff [of f] using ix cmp by (auto simp: f)
qed

theorem filter_idempotent_witness:
  "filtered_df example_df [''Pop''] (2000, 2020) (50, 100) = Inr (example_df\<lparr>rows := [example_row_A]\<rparr>)
   \<and> filtered_df (example_df\<lparr>rows := [example_row_A]\<rparr>) [''Pop''] (2000, 2020) (50, 100)
       = Inr (example_df\<lparr>rows := [example_row_A]\<rparr>)"
proof -
  have h: "filtered_df example_df [''Pop''] (2000, 2020) (50, 100)
             = Inr (example_df\<lparr>rows := [example_row_A]\<rparr>)"
    by code_simp
  show ?thesis using h filter_idempotent [OF h] by simp
qed

text \<open>
  Claim C7. Running the filter section leaves the variable \<open>df\<close> as it was, however
  the run ends. When genres are selected and the selection succeeds, the result is bound
  to the new variable \<open>filtered_df\<close>; it has the columns of the dataset, and each of its
  rows is a row of the dataset.
\<close>

theorem filter_leaves_dataset:
  assumes "song_explorer vars G yr pr = (shown, vars', oc)"
  shows "var_df vars' = var_df vars
       \<and> (G \<noteq> [] \<and> filtered_df (var_df vars) G yr pr = Inr f \<longrightarrow>
            var_filtered_df vars' = Some f
          \<and> columns f = columns (var_df vars)
          \<and> set (rows f) \<subseteq> set (rows (var_df vars)))"
proof -
  have frame: "var_df vars' = var_df vars"
    using assms
    by (auto simp: song_explorer_def Let_def split: if_splits sum.splits)
  have view: "var_filtered_df vars' = Some f \<and> columns f = columns (var_df vars)
          \<and> set (rows f) \<subseteq> set (rows (var_df vars))"
    if "G \<noteq> []" and ok: "filtered_df (var_df vars) G yr pr = Inr f"
  proof -
    from ok obtain ig iy ip where
      "f = (var_df vars)\<lparr>rows := filter (keep_row ig iy ip G yr pr) (rows (var_df vars))\<rparr>"
      unfolding filtered_df_Inr_iff by blast
    then have "columns f = columns (var_df vars)" "set (rows f) \<subseteq> set (rows (var_df vars))"
      by auto
    moreover have "var_filtered_df vars' = Some f"
      using assms that
      by (auto simp: song_explorer_def Let_def split: if_splits sum.splits)
    ultimately show ?thesis by simp
  qed
  from frame view show ?thesis by blast
qed

theorem filter_leaves_dataset_witness:
  "song_explorer \<lparr>var_df = songs_df, var_filtered_df = None\<rparr> [''Pop''] (2000, 2020) (50, 100)
   = ([St_subheader ''Found 2 songs matching your criteria:'',
       St_dataframe \<lparr>columns = display_cols,
          rows = [[Str ''A'', Str ''X'', Str ''Pop'', IntV 2010, IntV 80, IntV 200],
                  [Str ''C'', Str ''X'', Str ''Pop'', IntV 2012, IntV 60, IntV 210]]\<rparr>],
      \<lparr>var_df = songs_df, var_filtered_df = Some songs_pop_view\<rparr>,
      Returned ())
   \<and> filtered_df songs_df [''Pop''] (2000, 2020) (50, 100) = Inr songs_pop_view
   \<and> columns songs_pop_view = columns songs_df
   \<and> set (rows songs_pop_view) \<subseteq> set (rows songs_df)"
proof -
  have h1: "song_explorer \<lparr>var_df = songs_df, var_filtered_df = None\<rparr> [''Pop''] (2000, 2020) (50, 100)
   = ([St_subheader ''Found 2 songs matching your criteria:'',
       St_dataframe \<lparr>columns = display_cols,
          rows = [[Str ''A'', Str ''X'', Str ''Pop'', IntV 2010, IntV 80, IntV 200],
                  [Str ''C'', Str ''X'', Str ''Pop'', IntV 2012, IntV 60, IntV 210]]\<rparr>],
      \<lparr>var_df = songs_df, var_filtered_df = Some songs_pop_view\<rparr>,
      Returned ())"
    using songs_explorer_run by (simp add: songs_pop_view_def)
  have h2: "filtered_df songs_df [''Pop''] (2000, 2020) (50, 100) = Inr songs_pop_view"
    by code_simp
  show ?thesis
    using h1 h2 filter_leaves_dataset [OF h1, where f = songs_pop_view] by simp
qed

text \<open>
  Claim C10. The rows of a filtered view are a subsequence of the rows of the dataset:
  they keep their relative order and each is a row of the dataset, cell for cell. The
  columns are those of the dataset.
\<close>

theorem filter_preserves_order:
  assumes "filtered_df df G yr pr = Inr f"
  shows "subseq (rows f) (rows df) \<and> columns f = columns df"
proof -
  from assms obtain ig iy ip where
    "f = df\<lparr>rows := filter (keep_row ig iy ip G yr pr) (rows df)\<rparr>"
    unfolding filtered_df_Inr_iff by blast
  then show ?thesis by simp
qed

theorem filter_preserves_order_witness:
  "filtered_df songs_df [''Pop''] (2000, 2020) (50, 100) = Inr songs_pop_view
   \<and> rows songs_pop_view = [rows songs_df ! 0, rows songs_df ! 2]
   \<and> subseq (rows songs_pop_view) (rows songs_df)
   \<and> columns songs_pop_view = columns songs_df"
proof -
  have h: "filtered_df songs_df [''Pop''] (2000, 2020) (50, 100) = Inr songs_pop_view"
    by code_simp
  show ?thesis using h filter_preserves_order [OF h] by (simp add: songs_pop_view_def)
qed

subsection \<open>The loader\<close>




text \<open>
  Claim C4, as stated, fails: a file with every required column but Genre loads without
  any error, and the dataset returned has no Genre column.
\<close>

theorem loader_missing_genre_counterexample:
  "\<not> has_column ''Genre'' csv_without_genre
   \<and> load_data lib_ns (Inr csv_without_genre)
     = ([], Returned
          \<lparr>columns = [''Title'', ''Artist'', ''Release Date'', ''Popularity'', ''Duration'',
                      ''release_datetime'', ''release_year''],
           rows = [[Str ''A'', Str ''X'', Str ''01-06-2010'', IntV 80, IntV 200,
                    Timestamp \<lparr>year = 2010, month = 6, day = 1\<rparr>, IntV 2010]]\<rparr>)"
  by (simp add: has_column_def load_data_def load_data_try_def csv_without_genre_def
      get_column_def set_column_def to_datetime_def dt_year_def dropna_def boolean_index_def
      isna_def astype_int_def strptime_example_A representable_def in_bounds_def)

text \<open>
  Claim C4, amended. The loader shows the not-found message and halts when reading the
  file raised FileNotFoundError; it shows the loading-error message and halts for any
  other exception of the read, and for a table without the Release Date column. In these
  cases the run is halted and no dataset is returned. A well-formed table that has the
  Release Date column always loads, whatever other columns it lacks: the columns of the
  dataset returned are those of the table and the two derived columns, so that a column
  the file lacks is lacking in the dataset.
\<close>

theorem loader_errors:
  "load_data lib (Inl (FileNotFoundError m))
     = ([St_error (''Error: The data file '' @ [CHR 0x27] @ ''songs_2000_2020_50k.csv''
                   @ [CHR 0x27] @ '' was not found.'')], Stopped)
   \<and> (\<not> is_not_found e \<longrightarrow>
        load_data lib (Inl e)
          = ([St_error (''An error occurred while loading the data: '' @ exn_str e)], Stopped))
   \<and> (\<not> has_column ''Release Date'' src1 \<longrightarrow>
        load_data lib (Inr src1)
          = ([St_error (''An error occurred while loading the data: '' @ [CHR 0x27]
                        @ ''Release Date'' @ [CHR 0x27])], Stopped))
   \<and> (wf_df src2 \<and> has_column ''Release Date'' src2 \<longrightarrow>
        (\<exists>ds. load_data lib (Inr src2) = ([], Returned ds)
            \<and> set (columns ds)
                = set (columns src2) \<union> {''release_datetime'', ''release_year''}))"
proof (intro conjI impI)
  show "load_data lib (Inl (FileNotFoundError m))
     = ([St_error (''Error: The data file '' @ [CHR 0x27] @ ''songs_2000_2020_50k.csv''
                   @ [CHR 0x27] @ '' was not found.'')], Stopped)"
    by (simp add: load_data_def load_data_try_Inl file_path_def)
next
  assume "\<not> is_not_found e"
  then show "load_data lib (Inl e)
          = ([St_error (''An error occurred while loading the data: '' @ exn_str e)], Stopped)"
    by (cases e) (simp_all add: load_data_def load_data_try_Inl)
next
  assume "\<not> has_column ''Release Date'' src1"
  then have "load_data_try lib (Inr src1) = Inl (KeyError ''Release Date'')"
    by (simp add: has_column_def load_data_try_KeyError)
  then show "load_data lib (Inr src1)
          = ([St_error (''An error occurred while loading the data: '' @ [CHR 0x27]
                        @ ''Release Date'' @ [CHR 0x27])], Stopped)"
    by (simp add: load_data_def)
next
  assume a: "wf_df src2 \<and> has_column ''Release Date'' src2"
  then obtain rd where "get_column ''Release Date'' src2 = Inr rd"
    by (auto simp: has_column_def get_column_def)
  with a load_data_try_Inr [of src2 rd lib] obtain ds where
    "load_data_try lib (Inr src2) = Inr ds"
    "set (columns ds) = set (columns src2) \<union> {''release_datetime'', ''release_year''}"
    by blast
  then show "\<exists>ds. load_data lib (Inr src2) = ([], Returned ds)
            \<and> set (columns ds)
                = set (columns src2) \<union> {''release_datetime'', ''release_year''}"
    by (simp add: load_data_def)
qed

theorem loader_errors_witness:
  "\<not> is_not_found (OtherError ''Error tokenizing data'')
   \<and> \<not> has_column ''Release Date'' \<lparr>columns = [''Title''], rows = [[Str ''A'']]\<rparr>
   \<and> wf_df csv_without_genre \<and> has_column ''Release Date'' csv_without_genre
   \<and> load_data lib_ns (Inl (FileNotFoundError ''No such file or directory''))
     = ([St_error (''Error: The data file '' @ [CHR 0x27] @ ''songs_2000_2020_50k.csv''
                   @ [CHR 0x27] @ '' was not found.'')], Stopped)
   \<and> load_data lib_ns (Inl (OtherError ''Error tokenizing data''))
          = ([St_error ''An error occurred while loading the data: Error tokenizing data''], Stopped)
   \<and> load_data lib_ns (Inr \<lparr>columns = [''Title''], rows = [[Str ''A'']]\<rparr>)
          = ([St_error (''An error occurred while loading the data: '' @ [CHR 0x27]
                        @ ''Release Date'' @ [CHR 0x27])], Stopped)
   \<and> (\<exists>ds. load_data lib_ns (Inr csv_without_genre) = ([], Returned ds)
          \<and> set (columns ds)
                = set (columns csv_without_genre) \<union> {''release_datetime'', ''release_year''}
          \<and> ''Genre'' \<notin> set (columns ds))"
proof -
  have h1: "\<not> is_not_found (OtherError ''Error tokenizing data'')" by simp
  have h2: "\<not> has_column ''Release Date'' \<lparr>columns = [''Title''], rows = [[Str ''A'']]\<rparr>"
    by (simp add: has_column_def)
  have h3: "wf_df csv_without_genre \<and> has_column ''Release Date'' csv_without_genre"
    by (simp add: wf_df_def has_column_def csv_without_genre_def)
  have g: "''Genre'' \<notin> set (columns csv_without_genre)
             \<union> {''release_datetime'', ''release_year''}"
    by (simp add: csv_without_genre_def)
  note t = loader_errors [of lib_ns "''No such file or directory''"
      "OtherError ''Error tokenizing data''"
      "\<lparr>columns = [''Title''], rows = [[Str ''A'']]\<rparr>" csv_without_genre]
  note c1 = t [THEN conjunct1]
  note c2 = t [THEN conjunct2, THEN conjunct1, THEN mp, OF h1]
  note c3 = t [THEN conjunct2, THEN conjunct2, THEN conjunct1, THEN mp, OF h2]
  note c4 = t [THEN conjunct2, THEN conjunct2, THEN conjunct2, THEN mp, OF h3]
  from c4 obtain ds where ds: "load_data lib_ns (Inr csv_without_genre) = ([], Returned ds)"
    "set (columns ds)
       = set (columns csv_without_genre) \<union> {''release_datetime'', ''release_year''}"
    by blast
  have "''Genre'' \<notin> set (columns ds)" unfolding ds(2) by (rule g)
  with ds have c4': "\<exists>ds. load_data lib_ns (Inr csv_without_genre) = ([], Returned ds)
          \<and> set (columns ds)
                = set (columns csv_without_genre) \<union> {''release_datetime'', ''release_year''}
          \<and> ''Genre'' \<notin> set (columns ds)"
    by blast
  have c2': "load_data lib_ns (Inl (OtherError ''Error tokenizing data''))
          = ([St_error ''An error occurred while loading the data: Error tokenizing data''], Stopped)"
    using c2 by simp
  from h1 h2 h3 c1 c2' c3 c4' show ?thesis by (intro conjI) (simp_all only: simp_thms)
qed

subsection \<open>The aggregations\<close>

text \<open>
  Claim C6. On a dataset with integer release years, the count by year has one row per
  distinct release year present, in increasing order, holding the number of records of
  that year, and the counts sum to the number of records of the dataset.
\<close>

theorem count_by_year_sums:
  assumes "int_column ''release_year'' df"
  shows "\<exists>years.
           data_songs_per_year df
             = Inr \<lparr>columns = [''release_year'', ''song_count''],
                    rows = map (\<lambda>y. [IntV y, IntV (int (count_year df y))]) years\<rparr>
         \<and> sorted years \<and> distinct years
         \<and> set years = {y. \<exists>r \<in> set (rows df). row_attr df ''release_year'' r = IntV y}
         \<and> sum_list (map (count_year df) years) = length (rows df)"
proof -
  from int_column_D [OF assms] obtain i where
    i: "col_index ''release_year'' (columns df) = Some i"
    and ty: "\<forall>r \<in> set (rows df). is_int_cell (r ! i)" by blast
  define ys where "ys = map (\<lambda>r. int_of_cell (r ! i)) (rows df)"
  define years where "years = sort (remdups ys)"
  have col: "get_column ''release_year'' df = Inr (map (\<lambda>r. r ! i) (rows df))"
    using i by (simp add: get_column_def)
  have keys: "map_exn int_key (map (\<lambda>r. r ! i) (rows df))
                = Inr (map (\<lambda>c. Some (int_of_cell c)) (map (\<lambda>r. r ! i) (rows df)))"
  proof (rule map_exn_total)
    fix c assume "c \<in> set (map (\<lambda>r. r ! i) (rows df))"
    then have "is_int_cell c" using ty by auto
    then show "int_key c = Inr (Some (int_of_cell c))" by (cases c) simp_all
  qed
  have present: "somes (map ((\<lambda>c. Some (int_of_cell c)) \<circ> (\<lambda>r. r ! i)) (rows df)) = ys"
    by (simp add: comp_def somes_map_Some ys_def)
  have fld: "\<And>r y. r \<in> set (rows df) \<Longrightarrow> (row_attr df ''release_year'' r = IntV y) = (int_of_cell (r ! i) = y)"
    using i ty is_int_cell_eq by (fastforce simp: row_attr_def)
  have cnt: "\<And>k. length (filter (\<lambda>x. x = k) ys) = count_year df k"
  proof -
    fix k
    have "filter (\<lambda>r. int_of_cell (r ! i) = k) (rows df)
            = filter (\<lambda>r. row_attr df ''release_year'' r = IntV k) (rows df)"
      by (rule filter_cong) (simp_all add: fld)
    then show "length (filter (\<lambda>x. x = k) ys) = count_year df k"
      by (simp add: ys_def count_year_def filter_map comp_def)
  qed
  have run: "data_songs_per_year df
             = Inr \<lparr>columns = [''release_year'', ''song_count''],
                    rows = map (\<lambda>y. [IntV y, IntV (int (count_year df y))]) years\<rparr>"
    by (simp add: data_songs_per_year_def col keys present Let_def years_def cnt)
  have st: "set years = {y. \<exists>r \<in> set (rows df). row_attr df ''release_year'' r = IntV y}"
    using fld by (auto simp: years_def ys_def)
  have "sum_list (map (count_year df) years) = length ys"
    using sum_counts_sort_remdups [of ys] by (simp add: cnt years_def)
  then have sm: "sum_list (map (count_year df) years) = length (rows df)"
    by (simp add: ys_def)
  have "sorted years" "distinct years" by (simp_all add: years_def)
  with run st sm show ?thesis by blast
qed

theorem count_by_year_sums_witness:
  "int_column ''release_year'' example_df
   \<and> (\<exists>years.
           data_songs_per_year example_df
             = Inr \<lparr>columns = [''release_year'', ''song_count''],
                    rows = map (\<lambda>y. [IntV y, IntV (int (count_year example_df y))]) years\<rparr>
         \<and> sum_list (map (count_year example_df) years) = length (rows example_df))
   \<and> data_songs_per_year example_df
        = Inr \<lparr>columns = [''release_year'', ''song_count''],
               rows = [[IntV 2010, IntV 1], [IntV 2015, IntV 1]]\<rparr>
   \<and> length (rows example_df) = 2"
proof -
  have h: "int_column ''release_year'' example_df"
    by (simp add: int_column_def get_column_def example_df_def)
  have l: "length (rows example_df) = 2" by (simp add: example_df_def)
  show ?thesis using h l example_years count_by_year_sums [OF h] by blast
qed

text \<open>
  Claim C8, as stated, fails: the mean is computed in binary64. With two records of
  genre Pop and popularity \<open>2^53 + 1\<close>, each popularity is rounded to \<open>2^53\<close> when it is
  converted, and the mean returned is \<open>2^53\<close>, below the least popularity of the genre.
\<close>

theorem mean_below_minimum_counterexample:
  "str_column ''Genre'' big_df \<and> int_column ''Popularity'' big_df
   \<and> avg_popularity_genre big_df
        = Inr \<lparr>columns = [''Genre'', ''Popularity''],
               rows = [[Str ''Pop'', Flt 9007199254740992]]\<rparr>
   \<and> popularity_of_genre big_df ''Pop'' = [9007199254740993, 9007199254740993]
   \<and> \<not> Min (set (popularity_of_genre big_df ''Pop'')) \<le> 9007199254740992"
proof -
  have h1: "str_column ''Genre'' big_df"
    by (simp add: str_column_def get_column_def big_df_def)
  have h2: "int_column ''Popularity'' big_df"
    by (simp add: int_column_def get_column_def big_df_def)
  show ?thesis using h1 h2 big_avg big_pop by simp
qed

text \<open>
  Claim C8, amended. On a dataset with string genres and integer popularities whose
  magnitudes sum to less than \<open>2^53\<close> (popularities from 0 to 100 do, for any number
  of records a machine can hold), the mean popularity by genre has one row per genre
  present, in increasing order; its value is the quotient of the sum by the count of the
  popularities of the genre, rounded once to binary64; and it lies between the least and
  the greatest popularity observed among the records of that genre.
\<close>

theorem mean_within_min_max:
  assumes "str_column ''Genre'' df" and "int_column ''Popularity'' df"
    and "popularity_magnitude df < 2 ^ 53"
  shows "\<exists>genres.
           avg_popularity_genre df
             = Inr \<lparr>columns = [''Genre'', ''Popularity''],
                    rows = map (\<lambda>g. [Str g, Flt (f64 (sum_list (popularity_of_genre df g)
                                              / real (length (popularity_of_genre df g))))])
                               genres\<rparr>
         \<and> sorted genres \<and> distinct genres
         \<and> set genres = {g. \<exists>r \<in> set (rows df). row_attr df ''Genre'' r = Str g}
         \<and> (\<forall>g \<in> set genres.
               popularity_of_genre df g \<noteq> []
             \<and> Min (set (popularity_of_genre df g))
                 \<le> f64 (sum_list (popularity_of_genre df g)
                         / real (length (popularity_of_genre df g)))
             \<and> f64 (sum_list (popularity_of_genre df g)
                       / real (length (popularity_of_genre df g)))
                 \<le> Max (set (popularity_of_genre df g)))"
proof -
  from str_column_D [OF assms(1)] obtain ig where
    ig: "col_index ''Genre'' (columns df) = Some ig"
    and tg: "\<forall>r \<in> set (rows df). is_str_cell (r ! ig)" by blast
  from int_column_D [OF assms(2)] obtain ip where
    ip: "col_index ''Popularity'' (columns df) = Some ip"
    and tp: "\<forall>r \<in> set (rows df). is_int_cell (r ! ip)" by blast
  define sk where "sk = (\<lambda>r. str_of_cell (r ! ig))"
  define pi where "pi = (\<lambda>r. int_of_cell (r ! ip))"
  define grp where "grp = (\<lambda>g. map pi (filter (\<lambda>r. r ! ig = Str g) (rows df)))"
  define genres where "genres = sort (remdups (map sk (rows df)))"
  have mag: "sum_list (map (\<lambda>r. \<bar>pi r\<bar>) (rows df)) < 2 ^ 53"
    using assms(3) ip by (simp add: popularity_magnitude_def row_attr_def pi_def)
  have gcol: "get_column ''Genre'' df = Inr (map (\<lambda>r. r ! ig) (rows df))"
    using ig by (simp add: get_column_def)
  have pcol: "get_column ''Popularity'' df = Inr (map (\<lambda>r. r ! ip) (rows df))"
    using ip by (simp add: get_column_def)
  have keys: "map_exn group_key (map (\<lambda>r. r ! ig) (rows df))
                = Inr (map (\<lambda>r. Some (r ! ig)) (rows df))"
  proof -
    have "map_exn group_key (map (\<lambda>r. r ! ig) (rows df))
            = Inr (map Some (map (\<lambda>r. r ! ig) (rows df)))"
    proof (rule map_exn_total)
      fix c assume "c \<in> set (map (\<lambda>r. r ! ig) (rows df))"
      then have "is_str_cell c" using tg by auto
      then show "group_key c = Inr (Some c)" by (cases c) simp_all
    qed
    then show ?thesis by (simp add: comp_def)
  qed
  have vals: "map_exn num_val (map (\<lambda>r. r ! ip) (rows df))
                = Inr (map (\<lambda>r. Some (real_of_int (pi r))) (rows df))"
  proof -
    have "map_exn num_val (map (\<lambda>r. r ! ip) (rows df))
            = Inr (map (\<lambda>r. Some (real_of_int (pi r))) (rows df))"
      unfolding map_exn_Inr_iff
    proof (simp add: list_all2_map1 list_all2_map2 list_all2_same, intro ballI)
      fix r assume r: "r \<in> set (rows df)"
      then have "r ! ip = IntV (pi r)" using tp is_int_cell_eq by (auto simp: pi_def)
      moreover have "\<bar>pi r\<bar> < 2 ^ 53"
      proof -
        have "pi r \<in> set (map pi (rows df))" using r by simp
        from abs_le_sum_list_abs [OF this] mag show ?thesis by (simp add: comp_def)
      qed
      ultimately show "num_val (r ! ip) = Inr (Some (real_of_int (pi r)))"
        by (simp add: f64_int)
    qed
    then show ?thesis .
  qed
  have somes_keys: "somes (map (\<lambda>r. Some (r ! ig)) (rows df)) = map (\<lambda>r. r ! ig) (rows df)"
    by (rule somes_map_Some)
  have sorted_k: "sorted_keys (map (\<lambda>r. r ! ig) (rows df)) = map Str genres"
  proof -
    have "\<forall>c \<in> set (map (\<lambda>r. r ! ig) (rows df)). is_str_cell c" using tg by simp
    from keys_of_strings [OF this] show ?thesis
      by (simp add: sorted_keys_def genres_def sk_def comp_def)
  qed
  have group: "\<And>g. somes (map snd (filter (\<lambda>kv. fst kv = Some (Str g))
                  (zip (map (\<lambda>r. Some (r ! ig)) (rows df))
                       (map (\<lambda>r. Some (real_of_int (pi r))) (rows df)))))
               = map real_of_int (grp g)"
    by (simp add: zip_map_same group_values grp_def comp_def)
  have fld: "\<And>r g. r \<in> set (rows df) \<Longrightarrow> (r ! ig = Str g) = (sk r = g)"
    using tg is_str_cell_eq by (fastforce simp: sk_def)
  have pog: "\<And>g. popularity_of_genre df g = map real_of_int (grp g)"
  proof -
    fix g
    have "map (\<lambda>r. real_of_cell (r ! ip)) (filter (\<lambda>r. r ! ig = Str g) (rows df))
            = map (\<lambda>r. real_of_int (pi r)) (filter (\<lambda>r. r ! ig = Str g) (rows df))"
    proof (rule map_cong)
      fix r assume "r \<in> set (filter (\<lambda>r. r ! ig = Str g) (rows df))"
      then have "r ! ip = IntV (pi r)" using tp is_int_cell_eq by (auto simp: pi_def)
      then show "real_of_cell (r ! ip) = real_of_int (pi r)" by simp
    qed simp
    then show "popularity_of_genre df g = map real_of_int (grp g)"
      using ig ip by (simp add: popularity_of_genre_def row_attr_def grp_def comp_def)
  qed
  have st: "set genres = {g. \<exists>r \<in> set (rows df). row_attr df ''Genre'' r = Str g}"
    using fld ig by (auto simp: genres_def row_attr_def)
  have ne: "grp g \<noteq> []" if "g \<in> set genres" for g
  proof -
    from that obtain r where "r \<in> set (rows df)" "sk r = g" by (auto simp: genres_def)
    then have "r \<in> set (filter (\<lambda>r. r ! ig = Str g) (rows df))" using fld by simp
    then show ?thesis unfolding grp_def by (auto simp del: set_filter)
  qed
  have gmag: "sum_list (map abs (grp g)) < 2 ^ 53" for g
  proof -
    have "sum_list (map abs (grp g))
            = sum_list (map (\<lambda>r. \<bar>pi r\<bar>) (filter (\<lambda>r. r ! ig = Str g) (rows df)))"
      by (simp add: grp_def comp_def)
    also have "\<dots> \<le> sum_list (map (\<lambda>r. \<bar>pi r\<bar>) (rows df))" by (rule sum_list_abs_filter)
    finally show ?thesis using mag by simp
  qed
  have rows_eq: "map (\<lambda>k. [k, mean (somes (map snd (filter (\<lambda>kv. fst kv = Some k)
                    (zip (map (\<lambda>r. Some (r ! ig)) (rows df))
                         (map (\<lambda>r. Some (real_of_int (pi r))) (rows df))))))])
                   (map Str genres)
        = map (\<lambda>g. [Str g, Flt (f64 (sum_list (popularity_of_genre df g)
                                  / real (length (popularity_of_genre df g))))]) genres"
  proof -
    have "mean (map real_of_int (grp g))
            = Flt (f64 (sum_list (map real_of_int (grp g)) / real (length (grp g))))"
      if "g \<in> set genres" for g
      using mean_exact_bounds(1) [OF ne [OF that] gmag] .
    then show ?thesis by (simp add: group pog comp_def)
  qed
  have run: "avg_popularity_genre df
          = Inr \<lparr>columns = [''Genre'', ''Popularity''],
                 rows = map (\<lambda>g. [Str g, Flt (f64 (sum_list (popularity_of_genre df g)
                                  / real (length (popularity_of_genre df g))))]) genres\<rparr>"
    unfolding avg_popularity_genre_def gcol pcol
    by (simp only: bind_exn_simps keys vals somes_keys sorted_k rows_eq)
  have bnd: "\<forall>g \<in> set genres.
               popularity_of_genre df g \<noteq> []
             \<and> Min (set (popularity_of_genre df g))
                 \<le> f64 (sum_list (popularity_of_genre df g)
                         / real (length (popularity_of_genre df g)))
             \<and> f64 (sum_list (popularity_of_genre df g)
                       / real (length (popularity_of_genre df g)))
                 \<le> Max (set (popularity_of_genre df g))"
  proof
    fix g assume g: "g \<in> set genres"
    from mean_exact_bounds(2,3) [OF ne [OF g] gmag] ne [OF g]
    show "popularity_of_genre df g \<noteq> []
             \<and> Min (set (popularity_of_genre df g))
                 \<le> f64 (sum_list (popularity_of_genre df g)
                         / real (length (popularity_of_genre df g)))
             \<and> f64 (sum_list (popularity_of_genre df g)
                       / real (length (popularity_of_genre df g)))
                 \<le> Max (set (popularity_of_genre df g))"
      by (simp add: pog)
  qed
  have "sorted genres" "distinct genres" by (simp_all add: genres_def)
  with run st bnd show ?thesis by blast
qed

theorem mean_within_min_max_witness:
  "str_column ''Genre'' songs_df \<and> int_column ''Popularity'' songs_df
   \<and> popularity_magnitude songs_df < 2 ^ 53
   \<and> (\<exists>genres.
           avg_popularity_genre songs_df
             = Inr \<lparr>columns = [''Genre'', ''Popularity''],
                    rows = map (\<lambda>g. [Str g, Flt (f64 (sum_list (popularity_of_genre songs_df g)
                                              / real (length (popularity_of_genre songs_df g))))])
                               genres\<rparr>
         \<and> set genres = {g. \<exists>r \<in> set (rows songs_df). row_attr songs_df ''Genre'' r = Str g}
         \<and> (\<forall>g \<in> set genres.
               popularity_of_genre songs_df g \<noteq> []
             \<and> Min (set (popularity_of_genre songs_df g))
                 \<le> f64 (sum_list (popularity_of_genre songs_df g)
                         / real (length (popularity_of_genre songs_df g)))
             \<and> f64 (sum_list (popularity_of_genre songs_df g)
                       / real (length (popularity_of_genre songs_df g)))
                 \<le> Max (set (popularity_of_genre songs_df g))))
   \<and> avg_popularity_genre songs_df
        = Inr \<lparr>columns = [''Genre'', ''Popularity''],
               rows = [[Str ''Pop'', Flt 70], [Str ''Rock'', Flt 40]]\<rparr>
   \<and> popularity_of_genre songs_df ''Pop'' = [80, 60]"
proof -
  have h1: "str_column ''Genre'' songs_df"
    by (simp add: str_column_def get_column_def songs_df_def)
  have h2: "int_column ''Popularity'' songs_df"
    by (simp add: int_column_def get_column_def songs_df_def)
  have h3: "popularity_magnitude songs_df < 2 ^ 53"
    by (simp add: popularity_magnitude_def row_attr_def songs_df_def)
  show ?thesis
    using h1 h2 h3 songs_avg songs_pop mean_within_min_max [OF h1 h2 h3] by blast
qed

text \<open>
  Claim C9. Sampling more rows than the dataset has raises ValueError, whatever the
  generator draws; no smaller sample is returned. The script samples 5000 rows, so the
  sample of a dataset of fewer than 5000 rows raises.
\<close>

theorem sample_exceeds_population:
  assumes "length (rows df) < n"
  shows "(\<exists>msg. sample perm n df = Inl (ValueError msg))
       \<and> (n = 5000 \<longrightarrow> (\<exists>msg. df_sample perm df = Inl (ValueError msg)))"
  using assms by (simp add: sample_def df_sample_def)

theorem sample_exceeds_population_witness:
  "length (rows example_df) < 5000
   \<and> (\<exists>msg. sample [1, 0] 5000 example_df = Inl (ValueError msg))
   \<and> (\<exists>msg. df_sample [1, 0] example_df = Inl (ValueError msg))"
proof -
  have h: "length (rows example_df) < 5000" by (simp add: example_df_def)
  show ?thesis using h sample_exceeds_population [OF h, of "[1, 0]"] by simp
qed

end
